theory Spec2Isabelle
  imports Complex_Main "HOL-Library.Word"
begin

section \<open>Python values shared by the converters\<close>

text \<open>
  The four converters are Python functions (run through Pyodide) embedded in the worker
  files. A Python \<open>str\<close> is a sequence of code points, so it is modelled as a list of
  naturals; \<open>ord\<close> is the identity. Bytes are 8-bit words. Coordinates are Python
  numbers (ints and floats); they are modelled as reals, so float rounding is idealised.
  The one float operation of these files that can raise on its own is the division of an
  int too large for a float. It is an exception of the model in the presentation
  converter's \<open>emu_to_pt\<close>, where the handler of the slide shows it; the word-processor
  converter divides inside a handler that drops every exception, and its \<open>emu_to_pt\<close> is
  the division over the reals.
\<close>

type_synonym pystr = "nat list"

definition str_of :: "string \<Rightarrow> pystr" where
  "str_of s = map of_char s"

text \<open>
  Exceptions. Where Python's message is a fixed text or comes from a library outside the
  repository, the exception carries it. The two failures of \<open>int()\<close> on a string are
  \<open>ValueError\<close>s whose message is built from the argument: \<open>InvalidLiteral\<close> carries
  the string that is not a number, \<open>DigitLimit\<close> the number of digits of a numeral that is
  over the limit of 4300 digits. \<open>message\<close>, further down, is \<open>str(e)\<close>.
\<close>

datatype py_error =
    ValueError pystr
  | InvalidLiteral pystr
  | DigitLimit nat
  | IndexError pystr
  | TypeError pystr
  | ZeroDivisionError pystr
  | ReError pystr
  | BadZipFile pystr
  | UnicodeDecodeError pystr
  | XMLSyntaxError pystr
  | AttributeError pystr
  | KeyError pystr
  | OverflowError pystr

text \<open>Characters that \<open>str.strip()\<close> and \<open>str.split()\<close> treat as whitespace.\<close>

definition is_space :: "nat \<Rightarrow> bool" where
  "is_space c = ((9 \<le> c \<and> c \<le> 13) \<or> (28 \<le> c \<and> c \<le> 32) \<or> c = 133 \<or> c = 160
     \<or> c = 5760 \<or> (8192 \<le> c \<and> c \<le> 8202) \<or> c = 8232 \<or> c = 8233 \<or> c = 8239
     \<or> c = 8287 \<or> c = 12288)"

definition py_strip :: "pystr \<Rightarrow> pystr" where
  "py_strip s = rev (dropWhile is_space (rev (dropWhile is_space s)))"

text \<open>\<open>s.split(sep)\<close> for a one-character separator: always at least one piece.\<close>

fun split_on :: "nat \<Rightarrow> pystr \<Rightarrow> pystr list" where
  "split_on d [] = [[]]"
| "split_on d (c # cs) =
     (if c = d then [] # split_on d cs
      else (case split_on d cs of [] \<Rightarrow> [[c]] | l # ls \<Rightarrow> (c # l) # ls))"

text \<open>
  ASCII letter and digit classes of the regular expressions. Python's \<open>\d\<close> and
  \<open>int()\<close> also accept the decimal digits of other scripts; the model covers the
  ASCII digits only.
\<close>

definition is_lower :: "nat \<Rightarrow> bool" where
  "is_lower c = (97 \<le> c \<and> c \<le> 122)"

definition is_digit :: "nat \<Rightarrow> bool" where
  "is_digit c = (48 \<le> c \<and> c \<le> 57)"

definition is_ascii_letter :: "nat \<Rightarrow> bool" where
  "is_ascii_letter c = ((65 \<le> c \<and> c \<le> 90) \<or> (97 \<le> c \<and> c \<le> 122))"

definition is_hex :: "nat \<Rightarrow> bool" where
  "is_hex c = ((48 \<le> c \<and> c \<le> 57) \<or> (65 \<le> c \<and> c \<le> 70) \<or> (97 \<le> c \<and> c \<le> 102))"

definition hexval :: "nat \<Rightarrow> nat" where
  "hexval c = (if c \<le> 57 then c - 48 else if c \<le> 70 then c - 55 else c - 87)"

text \<open>\<open>str(n)\<close> for a non-negative integer.\<close>

function str_nat :: "nat \<Rightarrow> pystr" where
  "str_nat n = (if n < 10 then [48 + n] else str_nat (n div 10) @ [48 + n mod 10])"
  by pat_completeness auto
termination
  by (relation "measure (\<lambda>n. n)") auto

subsection \<open>The text of an exception\<close>

text \<open>
  \<open>repr(s)\<close> for a string: double quotes when the string has a single quote and no
  double quote, single quotes otherwise; the quote in use and the backslash are escaped,
  tab, newline and carriage return are written \<open>\t\<close>, \<open>\n\<close>, \<open>\r\<close>, the other control
  characters of ASCII \<open>\xhh\<close>, and a character above ASCII is copied when the Unicode
  database calls it printable and written \<open>\xhh\<close>, \<open>\uhhhh\<close> or \<open>\Uhhhhhhhh\<close> otherwise.
  The database is outside the repository: its printable test is the parameter
  \<open>printable\<close>, consulted for code points above 127 only.
\<close>

definition hex_digit :: "nat \<Rightarrow> nat" where
  "hex_digit n = (if n < 10 then 48 + n else 87 + n)"

definition hex_fixed :: "nat \<Rightarrow> nat \<Rightarrow> pystr" where
  "hex_fixed w n = map (\<lambda>i. hex_digit ((n div 16 ^ i) mod 16)) (rev [0 ..< w])"

definition repr_char :: "(nat \<Rightarrow> bool) \<Rightarrow> nat \<Rightarrow> nat \<Rightarrow> pystr" where
  "repr_char printable quote c =
     (if c = quote \<or> c = 92 then [92, c]
      else if c = 9 then [92, 116]
      else if c = 10 then [92, 110]
      else if c = 13 then [92, 114]
      else if c < 32 \<or> c = 127 then [92, 120] @ hex_fixed 2 c
      else if c < 127 then [c]
      else if printable c then [c]
      else if c < 256 then [92, 120] @ hex_fixed 2 c
      else if c < 65536 then [92, 117] @ hex_fixed 4 c
      else [92, 85] @ hex_fixed 8 c)"

definition py_repr :: "(nat \<Rightarrow> bool) \<Rightarrow> pystr \<Rightarrow> pystr" where
  "py_repr printable s =
     (let quote = (if 39 \<in> set s \<and> 34 \<notin> set s then 34 else 39)
      in [quote] @ concat (map (repr_char printable quote) s) @ [quote])"

text \<open>
  \<open>str(e)\<close>. \<open>int()\<close> formats its argument with \<open>%.200R\<close>: at most the first 200
  characters of its \<open>repr\<close>.
\<close>

fun message :: "(nat \<Rightarrow> bool) \<Rightarrow> py_error \<Rightarrow> pystr" where
  "message printable (ValueError m) = m"
| "message printable (InvalidLiteral s) =
     str_of ''invalid literal for int() with base 10: '' @ take 200 (py_repr printable s)"
| "message printable (DigitLimit n) =
     str_of ''Exceeds the limit (4300 digits) for integer string conversion: value has ''
     @ str_nat n @ str_of '' digits; use sys.set_int_max_str_digits() to increase the limit''"
| "message printable (IndexError m) = m"
| "message printable (TypeError m) = m"
| "message printable (ZeroDivisionError m) = m"
| "message printable (ReError m) = m"
| "message printable (BadZipFile m) = m"
| "message printable (UnicodeDecodeError m) = m"
| "message printable (XMLSyntaxError m) = m"
| "message printable (AttributeError m) = m"
| "message printable (KeyError m) = m"
| "message printable (OverflowError m) = m"

subsection \<open>The page-drawing backend\<close>

text \<open>
  PyMuPDF is outside the repository. A document is the number of its pages and the draw
  commands issued so far, each with the index of the page it was issued on. Only the
  arguments that vary are kept (the font is one per conversion). Backend calls are taken
  to succeed.
\<close>

datatype color = Black | Red | Grey

datatype draw_cmd =
    Text "real \<times> real" pystr real color
  | TextBox "real \<times> real \<times> real \<times> real" pystr real
  | Image "real \<times> real \<times> real \<times> real" "8 word list"

record pdf =
  npages :: nat
  cmds :: "(nat \<times> draw_cmd) list"

definition pdf_open :: pdf where
  "pdf_open = \<lparr>npages = 0, cmds = []\<rparr>"

definition pdf_new_page :: "pdf \<Rightarrow> pdf" where
  "pdf_new_page d = d\<lparr>npages := Suc (npages d)\<rparr>"

definition draw :: "nat \<Rightarrow> draw_cmd \<Rightarrow> pdf \<Rightarrow> pdf" where
  "draw p c d = d\<lparr>cmds := cmds d @ [(p, c)]\<rparr>"

definition page_cmds :: "pdf \<Rightarrow> nat \<Rightarrow> draw_cmd list" where
  "page_cmds d p = map snd (filter (\<lambda>pc. fst pc = p) (cmds d))"

section \<open>Rich-text converter (rtf-to-pdf.worker.js)\<close>

subsection \<open>strip_rtf\<close>

text \<open>
  The Python source sits in a JavaScript template literal, which halves every run of
  backslashes before Python sees it. The five substitutions Python runs are therefore
  \<^verbatim>\<open>re.sub(r'\\[a-z]+\d* ?', '', text)\<close>,
  \<^verbatim>\<open>re.sub(r'[{}]', '', text)\<close>,
  \<^verbatim>\<open>re.sub(r'\\\\', '\\', text)\<close>,
  \<^verbatim>\<open>re.sub(r"\\'([0-9a-fA-F]{2})", lambda m: chr(int(m.group(1), 16)), text)\<close> and
  \<^verbatim>\<open>re.sub(r'\n+', '\n', text)\<close>, followed by \<open>text.strip()\<close>.
\<close>

definition drop_opt_space :: "pystr \<Rightarrow> pystr" where
  "drop_opt_space s = (case s of [] \<Rightarrow> [] | c # r \<Rightarrow> if c = 32 then r else c # r)"

text \<open>First pass: a backslash, one or more lower-case letters, digits, one optional space.\<close>

function strip_control_words :: "pystr \<Rightarrow> pystr" where
  "strip_control_words [] = []"
| "strip_control_words (c # cs) =
     (if c = 92 \<and> takeWhile is_lower cs \<noteq> []
      then strip_control_words (drop_opt_space (dropWhile is_digit (dropWhile is_lower cs)))
      else c # strip_control_words cs)"
  by pat_completeness auto
termination
proof (relation "measure length")
  show "wf (measure length)" by simp
next
  fix c :: nat and cs :: pystr
  have shorter: "length (drop_opt_space s) \<le> length s" for s
    by (cases s) (simp_all add: drop_opt_space_def)
  have "length (drop_opt_space (dropWhile is_digit (dropWhile is_lower cs)))
        \<le> length (dropWhile is_digit (dropWhile is_lower cs))"
    by (rule shorter)
  also have "\<dots> \<le> length (dropWhile is_lower cs)" by (rule length_dropWhile_le)
  also have "\<dots> \<le> length cs" by (rule length_dropWhile_le)
  finally show "(drop_opt_space (dropWhile is_digit (dropWhile is_lower cs)), c # cs)
        \<in> measure length" by simp
next
  fix c :: nat and cs :: pystr
  show "(cs, c # cs) \<in> measure length" by simp
qed

text \<open>Second pass: every brace is removed.\<close>

definition strip_braces :: "pystr \<Rightarrow> pystr" where
  "strip_braces s = filter (\<lambda>c. c \<noteq> 123 \<and> c \<noteq> 125) s"

text \<open>
  Third pass. \<open>re.sub\<close> compiles a replacement string that contains a backslash as a
  template before it searches the text (\<open>re._parser.parse_template\<close>): \<open>\\\<close> stands for
  one backslash, the letter escapes for their control characters, any other ASCII letter
  after a backslash is rejected, and so is a backslash that ends the string. Group
  references and octal escapes (a backslash before \<open>g\<close> or a digit) do not occur in this
  program; the model rejects them like the other bad escapes.
\<close>

definition escape_char :: "nat \<Rightarrow> nat option" where
  "escape_char c =
     (if c = 92 then Some 92 else if c = 97 then Some 7 else if c = 98 then Some 8
      else if c = 102 then Some 12 else if c = 110 then Some 10 else if c = 114 then Some 13
      else if c = 116 then Some 9 else if c = 118 then Some 11 else None)"

fun parse_template :: "pystr \<Rightarrow> py_error + pystr" where
  "parse_template [] = Inr []"
| "parse_template [c] =
     (if c = 92 then Inl (ReError (str_of ''bad escape (end of pattern)'')) else Inr [c])"
| "parse_template (c # d # cs) =
     (if c = 92 then
        (case escape_char d of
           Some e \<Rightarrow> (case parse_template cs of Inl err \<Rightarrow> Inl err | Inr r \<Rightarrow> Inr (e # r))
         | None \<Rightarrow>
             if is_ascii_letter d \<or> is_digit d then Inl (ReError (str_of ''bad escape''))
             else (case parse_template cs of Inl err \<Rightarrow> Inl err | Inr r \<Rightarrow> Inr (c # d # r)))
      else (case parse_template (d # cs) of Inl err \<Rightarrow> Inl err | Inr r \<Rightarrow> Inr (c # r)))"

fun sub_double_backslash :: "pystr \<Rightarrow> pystr \<Rightarrow> pystr" where
  "sub_double_backslash repl (a # b # cs) =
     (if a = 92 \<and> b = 92 then repl @ sub_double_backslash repl cs
      else a # sub_double_backslash repl (b # cs))"
| "sub_double_backslash repl cs = cs"

text \<open>Fourth pass: \<open>\'XX\<close> becomes the character with code point \<open>XX\<close> (hexadecimal).\<close>

fun decode_hex :: "pystr \<Rightarrow> pystr" where
  "decode_hex (a # b # c # d # cs) =
     (if a = 92 \<and> b = 39 \<and> is_hex c \<and> is_hex d
      then (hexval c * 16 + hexval d) # decode_hex cs
      else a # decode_hex (b # c # d # cs))"
| "decode_hex cs = cs"

text \<open>Fifth pass: a run of newlines becomes one newline.\<close>

fun collapse_newlines :: "pystr \<Rightarrow> pystr" where
  "collapse_newlines (a # b # cs) =
     (if a = 10 \<and> b = 10 then collapse_newlines (b # cs)
      else a # collapse_newlines (b # cs))"
| "collapse_newlines cs = cs"

definition strip_rtf :: "pystr \<Rightarrow> py_error + pystr" where
  "strip_rtf text =
     (let t1 = strip_control_words text;
          t2 = strip_braces t1
      in case parse_template [92] of
           Inl err \<Rightarrow> Inl err
         | Inr repl \<Rightarrow>
             Inr (py_strip (collapse_newlines (decode_hex (sub_double_backslash repl t2)))))"

subsection \<open>Decoding the input bytes\<close>

text \<open>
  \<open>bytes.decode('utf-8')\<close> is strict: it raises \<open>UnicodeDecodeError\<close> on a stray or
  missing continuation byte, an overlong form, a surrogate or a value above U+10FFFF.
  \<open>bytes.decode('latin-1')\<close> maps each byte to the code point of the same value.
\<close>

definition is_cont :: "nat \<Rightarrow> bool" where
  "is_cont b = (128 \<le> b \<and> b \<le> 191)"

fun utf8_decode :: "nat list \<Rightarrow> pystr option" where
  "utf8_decode [] = Some []"
| "utf8_decode [b0] = (if b0 < 128 then Some [b0] else None)"
| "utf8_decode [b0, b1] =
     (if b0 < 128 then map_option ((#) b0) (utf8_decode [b1])
      else if 194 \<le> b0 \<and> b0 \<le> 223 \<and> is_cont b1 then Some [(b0 - 192) * 64 + (b1 - 128)]
      else None)"
| "utf8_decode [b0, b1, b2] =
     (if b0 < 128 then map_option ((#) b0) (utf8_decode [b1, b2])
      else if 194 \<le> b0 \<and> b0 \<le> 223 \<and> is_cont b1
        then map_option ((#) ((b0 - 192) * 64 + (b1 - 128))) (utf8_decode [b2])
      else if 224 \<le> b0 \<and> b0 \<le> 239 \<and> is_cont b1 \<and> is_cont b2
              \<and> (if b0 = 224 then 160 \<le> b1 else True) \<and> (if b0 = 237 then b1 \<le> 159 else True)
        then Some [(b0 - 224) * 4096 + (b1 - 128) * 64 + (b2 - 128)]
      else None)"
| "utf8_decode (b0 # b1 # b2 # b3 # bs) =
     (if b0 < 128 then map_option ((#) b0) (utf8_decode (b1 # b2 # b3 # bs))
      else if 194 \<le> b0 \<and> b0 \<le> 223 \<and> is_cont b1
        then map_option ((#) ((b0 - 192) * 64 + (b1 - 128))) (utf8_decode (b2 # b3 # bs))
      else if 224 \<le> b0 \<and> b0 \<le> 239 \<and> is_cont b1 \<and> is_cont b2
              \<and> (if b0 = 224 then 160 \<le> b1 else True) \<and> (if b0 = 237 then b1 \<le> 159 else True)
        then map_option ((#) ((b0 - 224) * 4096 + (b1 - 128) * 64 + (b2 - 128)))
               (utf8_decode (b3 # bs))
      else if 240 \<le> b0 \<and> b0 \<le> 244 \<and> is_cont b1 \<and> is_cont b2 \<and> is_cont b3
              \<and> (if b0 = 240 then 144 \<le> b1 else True) \<and> (if b0 = 244 then b1 \<le> 143 else True)
        then map_option
               ((#) ((b0 - 240) * 262144 + (b1 - 128) * 4096 + (b2 - 128) * 64 + (b3 - 128)))
               (utf8_decode bs)
      else None)"

datatype codec = UTF8 | Latin1

definition bytes_decode :: "codec \<Rightarrow> 8 word list \<Rightarrow> py_error + pystr" where
  "bytes_decode enc bs =
     (case enc of
        Latin1 \<Rightarrow> Inr (map unat bs)
      | UTF8 \<Rightarrow>
          (case utf8_decode (map unat bs) of
             Some s \<Rightarrow> Inr s
           | None \<Rightarrow> Inl (UnicodeDecodeError (str_of ''invalid utf-8''))))"

text \<open>Lines 61-65: try UTF-8; a bare \<open>except\<close> catches any failure and decodes as Latin-1.\<close>

definition decode_rtf :: "8 word list \<Rightarrow> py_error + pystr" where
  "decode_rtf input_bytes =
     (case bytes_decode UTF8 input_bytes of
        Inr s \<Rightarrow> Inr s
      | Inl _ \<Rightarrow> bytes_decode Latin1 input_bytes)"

subsection \<open>convert_rtf_to_pdf\<close>

definition rtf_page_width :: real where "rtf_page_width = 595"
definition rtf_page_height :: real where "rtf_page_height = 842"
definition rtf_margin :: real where "rtf_margin = 72"
definition rtf_fontsize :: real where "rtf_fontsize = 11"
definition rtf_lineheight :: real where "rtf_lineheight = rtf_fontsize * 1.5"

definition max_lines_per_page :: nat where
  "max_lines_per_page = nat \<lfloor>(rtf_page_height - 2 * rtf_margin) / rtf_lineheight\<rfloor>"

record rtf_state =
  rtf_doc :: pdf
  rtf_page :: "nat option"
  current_line :: nat
  rtf_y :: real

fun layout_lines :: "pystr list \<Rightarrow> rtf_state \<Rightarrow> rtf_state" where
  "layout_lines [] st = st"
| "layout_lines (line # rest) st =
     (let st1 = (if rtf_page st = None \<or> max_lines_per_page \<le> current_line st
                 then st\<lparr>rtf_doc := pdf_new_page (rtf_doc st),
                         rtf_page := Some (npages (rtf_doc st)),
                         current_line := 0, rtf_y := rtf_margin\<rparr>
                 else st);
          st2 = (case rtf_page st1 of
                   None \<Rightarrow> st1
                 | Some p \<Rightarrow>
                     if py_strip line \<noteq> []
                     then st1\<lparr>rtf_doc := draw p (Text (rtf_margin, rtf_y st1 + rtf_fontsize)
                                                      line rtf_fontsize Black) (rtf_doc st1)\<rparr>
                     else st1)
      in layout_lines rest
           (st2\<lparr>rtf_y := rtf_y st2 + rtf_lineheight, current_line := Suc (current_line st2)\<rparr>))"

definition rtf_render :: "pystr \<Rightarrow> pdf" where
  "rtf_render plain_text =
     (let st = layout_lines (split_on 10 plain_text)
                 \<lparr>rtf_doc = pdf_open, rtf_page = None, current_line = 0, rtf_y = 0\<rparr>;
          d = rtf_doc st
      in if npages d = 0 then pdf_new_page d else d)"

definition convert_rtf_to_pdf :: "8 word list \<Rightarrow> py_error + pdf" where
  "convert_rtf_to_pdf input_bytes =
     (case decode_rtf input_bytes of
        Inl err \<Rightarrow> Inl err
      | Inr rtf_text \<Rightarrow>
          (case strip_rtf rtf_text of
             Inl err \<Rightarrow> Inl err
           | Inr plain_text \<Rightarrow> Inr (rtf_render plain_text)))"

section \<open>Spreadsheet converter (excel-to-pdf.worker.js)\<close>

subsection \<open>Python built-ins used on cell text\<close>

text \<open>
  \<open>int(s)\<close> for a string, as CPython 3.13 (the version of the wheels the workers load)
  does it. Whitespace around the numeral is dropped: the ASCII characters tab to carriage
  return and space, and the white space above ASCII; unlike \<open>str.strip()\<close>, the ASCII
  separators 28 to 31 are not dropped. One sign is allowed and the digits may be separated
  by single underscores; any other text is an invalid literal. A valid numeral of more
  than 4300 digits (leading zeros count, underscores do not) is over the digit limit.
\<close>

definition is_int_space :: "nat \<Rightarrow> bool" where
  "is_int_space c = ((9 \<le> c \<and> c \<le> 13) \<or> c = 32 \<or> c = 133 \<or> c = 160
     \<or> c = 5760 \<or> (8192 \<le> c \<and> c \<le> 8202) \<or> c = 8232 \<or> c = 8233 \<or> c = 8239
     \<or> c = 8287 \<or> c = 12288)"

definition int_strip :: "pystr \<Rightarrow> pystr" where
  "int_strip s = rev (dropWhile is_int_space (rev (dropWhile is_int_space s)))"

fun valid_digits :: "pystr \<Rightarrow> bool" where
  "valid_digits [] = False"
| "valid_digits [c] = is_digit c"
| "valid_digits (c # d # cs) =
     (is_digit c \<and> (if d = 95 then valid_digits cs else valid_digits (d # cs)))"

definition digits_value :: "pystr \<Rightarrow> int" where
  "digits_value ds = foldl (\<lambda>a c. a * 10 + (int c - 48)) 0 (filter is_digit ds)"

definition max_str_digits :: nat where
  "max_str_digits = 4300"

definition py_int :: "pystr \<Rightarrow> py_error + int" where
  "py_int s =
     (let t = int_strip s;
          neg = (t \<noteq> [] \<and> hd t = 45);
          ds = (if t \<noteq> [] \<and> (hd t = 45 \<or> hd t = 43) then tl t else t)
      in if \<not> valid_digits ds then Inl (InvalidLiteral s)
         else if length (filter is_digit ds) > max_str_digits
         then Inl (DigitLimit (length (filter is_digit ds)))
         else Inr (if neg then - digits_value ds else digits_value ds))"

text \<open>\<open>xs[i]\<close> for a list: a negative index counts from the end, out of range raises.\<close>

definition py_getitem :: "'a list \<Rightarrow> int \<Rightarrow> py_error + 'a" where
  "py_getitem xs i =
     (if 0 \<le> i \<and> i < int (length xs) then Inr (xs ! nat i)
      else if i < 0 \<and> - int (length xs) \<le> i then Inr (xs ! nat (int (length xs) + i))
      else Inl (IndexError (str_of ''list index out of range'')))"

definition startswith :: "pystr \<Rightarrow> pystr \<Rightarrow> bool" where
  "startswith s p = (take (length p) s = p)"

definition endswith :: "pystr \<Rightarrow> pystr \<Rightarrow> bool" where
  "endswith s p = (length p \<le> length s \<and> drop (length s - length p) s = p)"

subsection \<open>The opened archive\<close>

text \<open>
  \<open>zipfile\<close> and \<open>lxml\<close> are outside the repository. An archive that opened is given by
  its name list and by what \<open>read\<close> followed by \<open>etree.fromstring\<close> yields for the parts
  the converter reads: an exception, or the elements it iterates over. A cell \<open>c\<close> is its
  \<open>t\<close> attribute, the text of its \<open>v\<close> child (\<open>None\<close> without such a child or text) and the
  texts of the \<open>t\<close> elements under its \<open>is\<close> child (\<open>None\<close> without such a child).
\<close>

record xml_cell =
  t_attr :: "pystr option"
  v_text :: "pystr option"
  is_texts :: "pystr list option"

record xlsx_zip =
  xlsx_namelist :: "pystr list"
  xlsx_shared :: "py_error + pystr list list"
  xlsx_sheet :: "pystr \<Rightarrow> py_error + xml_cell list list"

definition xl_page_width :: real where "xl_page_width = 842"
definition xl_page_height :: real where "xl_page_height = 595"
definition xl_margin :: real where "xl_margin = 40"
definition xl_fontsize :: real where "xl_fontsize = 9"
definition cell_padding :: real where "cell_padding = 4"
definition xl_row_height :: real where "xl_row_height = xl_fontsize + cell_padding * 2"
definition xl_max_y :: real where "xl_max_y = xl_page_height - xl_margin"

text \<open>Lines 88-99: a shared-strings part that fails to parse leaves the table empty.\<close>

definition read_shared_strings :: "xlsx_zip \<Rightarrow> pystr list" where
  "read_shared_strings z =
     (if str_of ''xl/sharedStrings.xml'' \<in> set (xlsx_namelist z)
      then (case xlsx_shared z of Inl _ \<Rightarrow> [] | Inr sis \<Rightarrow> map concat sis)
      else [])"

text \<open>
  Lines 102-108 (and \<open>get_slide_files\<close> of the presentation converter): the parts whose
  name has the given prefix, ends in \<open>.xml\<close> and matches \<open>stem(\d+)\.xml$\<close>, ordered by
  that number. \<open>int(match.group(1))\<close> stands outside every \<open>try\<close>: when the digits are
  over the digit limit, its \<open>ValueError\<close> ends the loop and leaves the converter.
\<close>

definition part_number :: "pystr \<Rightarrow> pystr \<Rightarrow> py_error + nat option" where
  "part_number stem name =
     (let body = take (length name - 4) name;
          ds = rev (takeWhile is_digit (rev body));
          pre = take (length body - length ds) body
      in if ds \<noteq> [] \<and> endswith pre stem
         then (case py_int ds of Inl e \<Rightarrow> Inl e | Inr n \<Rightarrow> Inr (Some (nat n)))
         else Inr None)"

fun collect_parts :: "pystr \<Rightarrow> pystr \<Rightarrow> pystr list \<Rightarrow> py_error + (nat \<times> pystr) list" where
  "collect_parts prefix stem [] = Inr []"
| "collect_parts prefix stem (name # rest) =
     (if startswith name prefix \<and> endswith name (str_of ''.xml'')
      then (case part_number stem name of
              Inl e \<Rightarrow> Inl e
            | Inr None \<Rightarrow> collect_parts prefix stem rest
            | Inr (Some n) \<Rightarrow>
                (case collect_parts prefix stem rest of
                   Inl e \<Rightarrow> Inl e
                 | Inr files \<Rightarrow> Inr ((n, name) # files)))
      else collect_parts prefix stem rest)"

definition part_files :: "pystr \<Rightarrow> pystr \<Rightarrow> pystr list \<Rightarrow> py_error + (nat \<times> pystr) list" where
  "part_files prefix stem names =
     (case collect_parts prefix stem names of
        Inl e \<Rightarrow> Inl e
      | Inr files \<Rightarrow> Inr (sort_key fst files))"

definition sheet_files :: "xlsx_zip \<Rightarrow> py_error + (nat \<times> pystr) list" where
  "sheet_files z =
     part_files (str_of ''xl/worksheets/sheet'') (str_of ''sheet'') (xlsx_namelist z)"

subsection \<open>Cell values (lines 136-156)\<close>

text \<open>The body of the inner \<open>try\<close>: \<open>val\<close> is still the empty string when the guard fails.\<close>

definition shared_ref :: "pystr list \<Rightarrow> pystr \<Rightarrow> py_error + pystr" where
  "shared_ref shared_strings v =
     (case py_int v of
        Inl err \<Rightarrow> Inl err
      | Inr idx \<Rightarrow>
          if idx < int (length shared_strings) then py_getitem shared_strings idx
          else Inr [])"

definition inline_string :: "xml_cell \<Rightarrow> pystr" where
  "inline_string c =
     (case is_texts c of None \<Rightarrow> [] | Some ts \<Rightarrow> concat (filter (\<lambda>t. t \<noteq> []) ts))"

definition cell_value :: "pystr list \<Rightarrow> xml_cell \<Rightarrow> pystr" where
  "cell_value shared_strings c =
     (case v_text c of
        None \<Rightarrow> inline_string c
      | Some v \<Rightarrow>
          if v = [] then inline_string c
          else if t_attr c = Some (str_of ''s'')
          then (case shared_ref shared_strings v of Inl _ \<Rightarrow> v | Inr val \<Rightarrow> val)
          else v)"

definition sheet_rows :: "pystr list \<Rightarrow> xml_cell list list \<Rightarrow> pystr list list" where
  "sheet_rows shared_strings xml_rows =
     filter (\<lambda>r_cells. \<exists>v \<in> set r_cells. v \<noteq> [])
       (map (map (cell_value shared_strings)) xml_rows)"

subsection \<open>Column widths and row rendering (lines 160-201)\<close>

definition cell_w :: "pystr \<Rightarrow> nat" where
  "cell_w cell = sum_list (map (\<lambda>ch. if ch > 255 then 10 else 5) cell)"

fun update_widths :: "nat list \<Rightarrow> nat \<Rightarrow> pystr list \<Rightarrow> nat list" where
  "update_widths ws i [] = ws"
| "update_widths ws i (cell # r) =
     update_widths (if i < length ws then ws[i := max (ws ! i) (cell_w cell)] else ws) (Suc i) r"

definition xl_col_widths :: "pystr list list \<Rightarrow> nat list" where
  "xl_col_widths rows =
     (let col_count = foldr max (map length rows) 0;
          ws = foldl (\<lambda>ws r. update_widths ws 0 r) (replicate col_count 0) (take 50 rows)
      in map (\<lambda>w. max (min w 200) 40) ws)"

record xl_state =
  xl_doc :: pdf
  xl_page :: nat
  xl_y :: real

text \<open>The inner loop over the cells of one row, on the page and at the height given.\<close>

fun xl_render_cells ::
  "nat \<Rightarrow> real \<Rightarrow> nat list \<Rightarrow> nat \<Rightarrow> real \<Rightarrow> pystr list \<Rightarrow> pdf \<Rightarrow> pdf" where
  "xl_render_cells page y ws i x [] d = d"
| "xl_render_cells page y ws i x (cell_text # rest) d =
     (if length ws \<le> i then d
      else xl_render_cells page y ws (Suc i) (x + real (ws ! i)) rest
             (if cell_text \<noteq> []
              then draw page
                     (TextBox (x + 2, y + 2, x + real (ws ! i) - 2, y + xl_row_height - 1)
                        cell_text xl_fontsize) d
              else d))"

definition xl_break :: "xl_state \<Rightarrow> xl_state" where
  "xl_break st =
     (if xl_y st + xl_row_height > xl_max_y
      then \<lparr>xl_doc = pdf_new_page (xl_doc st), xl_page = npages (xl_doc st), xl_y = xl_margin\<rparr>
      else st)"

definition xl_render_row :: "nat list \<Rightarrow> pystr list \<Rightarrow> xl_state \<Rightarrow> xl_state" where
  "xl_render_row ws row_data st =
     (let st1 = xl_break st
      in \<lparr>xl_doc = xl_render_cells (xl_page st1) (xl_y st1) ws 0 xl_margin row_data (xl_doc st1),
          xl_page = xl_page st1,
          xl_y = xl_y st1 + xl_row_height\<rparr>)"

definition xl_render_rows :: "pystr list list \<Rightarrow> xl_state \<Rightarrow> xl_state" where
  "xl_render_rows rows st =
     (if rows = [] then st else foldl (\<lambda>s r. xl_render_row (xl_col_widths rows) r s) st rows)"

subsection \<open>convert_excel_to_pdf\<close>

text \<open>
  One pass of the loop over the sheets (lines 110-204). In the model the exceptions of the
  \<open>try\<close> block come from reading and parsing the sheet, after \<open>y_position\<close> is set; the
  handler then draws the marker on the sheet's page.
\<close>

definition process_sheet ::
  "(nat \<Rightarrow> bool) \<Rightarrow> xlsx_zip \<Rightarrow> pystr list \<Rightarrow> pdf \<Rightarrow> nat \<times> pystr \<Rightarrow> pdf" where
  "process_sheet printable z shared_strings d idx_path =
     (let page = npages d;
          d1 = draw page
                 (Text (xl_margin, xl_margin) (str_of ''Sheet '' @ str_nat (fst idx_path + 1))
                    12 Black)
                 (pdf_new_page d);
          y_position = xl_margin + 20
      in case xlsx_sheet z (snd idx_path) of
           Inl e \<Rightarrow>
             draw page
               (Text (xl_margin, y_position) (str_of ''Error: '' @ message printable e) 11 Red) d1
         | Inr xml_rows \<Rightarrow>
             xl_doc (xl_render_rows (sheet_rows shared_strings xml_rows)
                       \<lparr>xl_doc = d1, xl_page = page, xl_y = y_position\<rparr>))"

text \<open>The loop over the listed sheets and the blank page of lines 206-207.\<close>

definition excel_render :: "(nat \<Rightarrow> bool) \<Rightarrow> xlsx_zip \<Rightarrow> (nat \<times> pystr) list \<Rightarrow> pdf" where
  "excel_render printable z listed =
     (let files = map snd listed;
          d = foldl (process_sheet printable z (read_shared_strings z)) pdf_open
                (zip [0 ..< length files] files)
      in if npages d = 0 then pdf_new_page d else d)"

definition excel_pages :: "(nat \<Rightarrow> bool) \<Rightarrow> xlsx_zip \<Rightarrow> py_error + pdf" where
  "excel_pages printable z =
     (case sheet_files z of
        Inl e \<Rightarrow> Inl e
      | Inr listed \<Rightarrow> Inr (excel_render printable z listed))"

text \<open>
  Lines 64-67: \<open>zipfile.ZipFile\<close> is the parameter \<open>zip_open\<close>; its \<open>BadZipFile\<close> is turned
  into a \<open>ValueError\<close>, any other exception propagates.
\<close>

definition convert_excel_to_pdf ::
  "(nat \<Rightarrow> bool) \<Rightarrow> (8 word list \<Rightarrow> py_error + xlsx_zip) \<Rightarrow> 8 word list \<Rightarrow> py_error + pdf" where
  "convert_excel_to_pdf printable zip_open input_bytes =
     (case zip_open input_bytes of
        Inl (BadZipFile _) \<Rightarrow> Inl (ValueError (str_of ''Invalid XLSX file''))
      | Inl e \<Rightarrow> Inl e
      | Inr z \<Rightarrow> excel_pages printable z)"

section \<open>Presentation converter (pptx-to-pdf.worker.js)\<close>

text \<open>
  A picture shape is the \<open>r:embed\<close> attribute of its blip (\<open>None\<close> without blip or
  attribute) and the attribute pairs of the \<open>a:off\<close> and \<open>a:ext\<close> children of its
  transform (\<open>None\<close> where the element is missing). A text shape is the texts of the
  \<open>a:t\<close> elements of each paragraph of its \<open>p:txBody\<close> and the attributes of the offset
  found under \<open>p:spPr\<close>. The loop tells the shapes apart by the end of their tag
  (\<open>pic\<close>, \<open>sp\<close>); the first three constructors stand for the three outcomes of that
  test. A child of the shape tree that is no element (a comment or a processing
  instruction) has a function for its tag, and \<open>tag.endswith\<close> raises an
  \<open>AttributeError\<close>; \<open>NoTagShape\<close> carries its text, which names the type of that
  function.
\<close>

record pic_shape =
  pic_embed :: "pystr option"
  pic_off :: "(pystr option \<times> pystr option) option"
  pic_ext :: "(pystr option \<times> pystr option) option"

record sp_shape =
  sp_paras :: "pystr list list option"
  sp_off :: "(pystr option \<times> pystr option) option"

datatype shape = Pic pic_shape | Sp sp_shape | OtherShape | NoTagShape pystr

record pptx_zip =
  pptx_namelist :: "pystr list"
  pptx_slide :: "pystr \<Rightarrow> py_error + shape list option"
  pptx_rels :: "pystr \<Rightarrow> py_error + (pystr option \<times> pystr option) list"
  pptx_read :: "pystr \<Rightarrow> py_error + 8 word list"

definition pp_page_width :: real where "pp_page_width = 842"
definition pp_page_height :: real where "pp_page_height = 595"
definition pp_margin :: real where "pp_margin = 40"

definition slide_files :: "pptx_zip \<Rightarrow> py_error + (nat \<times> pystr) list" where
  "slide_files z =
     part_files (str_of ''ppt/slides/slide'') (str_of ''slide'') (pptx_namelist z)"

text \<open>\<open>os.path.dirname\<close> and \<open>os.path.basename\<close> (POSIX flavour) of a relative path.\<close>

definition basename :: "pystr \<Rightarrow> pystr" where
  "basename p = rev (takeWhile (\<lambda>c. c \<noteq> 47) (rev p))"

definition dirname :: "pystr \<Rightarrow> pystr" where
  "dirname p =
     (let head = take (length p - length (basename p)) p
      in if \<forall>c \<in> set head. c = 47 then head else rev (dropWhile (\<lambda>c. c = 47) (rev head)))"

text \<open>
  \<open>get_relationships\<close>: the loop stops at the first relationship without a target (the
  exception is caught inside the function) and keeps the entries made before it.
\<close>

fun add_rels ::
  "(pystr option \<times> pystr option) list \<Rightarrow> (pystr option \<rightharpoonup> pystr) \<Rightarrow> (pystr option \<rightharpoonup> pystr)" where
  "add_rels [] rels = rels"
| "add_rels ((rid, None) # rest) rels = rels"
| "add_rels ((rid, Some target) # rest) rels =
     add_rels rest
       (rels(rid \<mapsto> (if startswith target (str_of ''../'')
                       then str_of ''ppt/'' @ drop 3 target else target)))"

definition get_relationships :: "pptx_zip \<Rightarrow> pystr \<Rightarrow> (pystr option \<rightharpoonup> pystr)" where
  "get_relationships z slide_filename =
     (let rels_path = dirname slide_filename @ str_of ''/_rels/'' @ basename slide_filename
                        @ str_of ''.rels''
      in if rels_path \<in> set (pptx_namelist z)
         then (case pptx_rels z rels_path of Inl _ \<Rightarrow> Map.empty | Inr rs \<Rightarrow> add_rels rs Map.empty)
         else Map.empty)"

text \<open>
  \<open>emu_to_pt\<close> of this converter: a missing attribute counts as 0. \<open>int(emu) / 12700\<close>
  is Python's true division of two ints: the quotient rounded to the nearest float, and
  an \<open>OverflowError\<close> when that is beyond the largest float, which is when the absolute
  value of the quotient reaches \<open>2^1024 - 2^970\<close>.
\<close>

definition true_div_overflows :: "int \<Rightarrow> bool" where
  "true_div_overflows n = (\<bar>n\<bar> \<ge> 12700 * (2 ^ 1024 - 2 ^ 970))"

definition pp_emu_to_pt :: "pystr option \<Rightarrow> py_error + real" where
  "pp_emu_to_pt emu =
     (case emu of
        None \<Rightarrow> Inr 0
      | Some s \<Rightarrow>
          (case py_int s of
             Inl e \<Rightarrow> Inl e
           | Inr n \<Rightarrow>
               if true_div_overflows n
               then Inl (OverflowError (str_of ''integer division result too large for a float''))
               else Inr (real_of_int n / 12700)))"

definition emu_pair :: "pystr option \<times> pystr option \<Rightarrow> py_error + real \<times> real" where
  "emu_pair xy =
     (case pp_emu_to_pt (fst xy) of
        Inl e \<Rightarrow> Inl e
      | Inr a \<Rightarrow> (case pp_emu_to_pt (snd xy) of Inl e \<Rightarrow> Inl e | Inr b \<Rightarrow> Inr (a, b)))"

text \<open>
  The picture branch (lines 168-210). Everything from the blip lookup on runs inside its
  own \<open>try\<close>, whose handler only prints: the result is a command to draw, or nothing.
\<close>

definition pic_image :: "pptx_zip \<Rightarrow> (pystr option \<rightharpoonup> pystr) \<Rightarrow> pic_shape \<Rightarrow> py_error + draw_cmd option" where
  "pic_image z relationships pic =
     (case pic_embed pic of
        None \<Rightarrow> Inr None
      | Some embed_id \<Rightarrow>
          (case (if embed_id = [] then None else relationships (Some embed_id)) of
             None \<Rightarrow> Inr None
           | Some img_path \<Rightarrow>
               if img_path \<notin> set (pptx_namelist z) then Inr None
               else (case pptx_read z img_path of
                       Inl e \<Rightarrow> Inl e
                     | Inr img_data \<Rightarrow>
                         (case (pic_off pic, pic_ext pic) of
                            (Some off, Some ext) \<Rightarrow>
                              (case emu_pair off of
                                 Inl e \<Rightarrow> Inl e
                               | Inr (x, y) \<Rightarrow>
                                   (case emu_pair ext of
                                      Inl e \<Rightarrow> Inl e
                                    | Inr (w, h) \<Rightarrow>
                                        if w > 0 \<and> h > 0
                                        then Inr (Some (Image (x, y, x + w, y + h) img_data))
                                        else Inr None))
                          | _ \<Rightarrow> Inl (AttributeError
                                        (str_of ''NoneType object has no attribute''))))))"

definition process_pic :: "pptx_zip \<Rightarrow> (pystr option \<rightharpoonup> pystr) \<Rightarrow> nat \<Rightarrow> pic_shape \<Rightarrow> pdf \<Rightarrow> pdf" where
  "process_pic z relationships page pic d =
     (case pic_image z relationships pic of
        Inr (Some c) \<Rightarrow> draw page c d
      | _ \<Rightarrow> d)"

text \<open>The text branch (lines 213-261); the state is the document and \<open>flow_y\<close>.\<close>

fun draw_placed_lines :: "nat \<Rightarrow> real \<Rightarrow> real \<Rightarrow> pystr list \<Rightarrow> pdf \<Rightarrow> pdf" where
  "draw_placed_lines page x y [] d = d"
| "draw_placed_lines page x y (line # rest) d =
     (let fontsize = (if y < 100 then 24 else 14)
      in draw_placed_lines page x (y + fontsize * 1.5) rest
           (draw page (TextBox (x, y, x + 500, y + 500) line fontsize) d))"

fun draw_flow_lines :: "nat \<Rightarrow> pystr list \<Rightarrow> pdf \<times> real \<Rightarrow> pdf \<times> real" where
  "draw_flow_lines page [] s = s"
| "draw_flow_lines page (line # rest) s =
     draw_flow_lines page rest
       (draw page (Text (pp_margin, snd s) line 12 Black) (fst s), snd s + 18)"

definition process_sp :: "nat \<Rightarrow> sp_shape \<Rightarrow> pdf \<times> real \<Rightarrow> py_error + pdf \<times> real" where
  "process_sp page sp s =
     (case sp_paras sp of
        None \<Rightarrow> Inr s
      | Some paras \<Rightarrow>
          (let text_content = filter (\<lambda>t. t \<noteq> []) (map concat paras)
           in if text_content = [] then Inr s
              else (case sp_off sp of
                      None \<Rightarrow> Inr (draw_flow_lines page text_content s)
                    | Some off \<Rightarrow>
                        (case emu_pair off of
                           Inl e \<Rightarrow> Inl e
                         | Inr (x, y) \<Rightarrow>
                             Inr (draw_placed_lines page x y text_content (fst s), snd s)))))"

text \<open>
  The loop over the shape tree: it stops at the first exception and hands it, with the
  document as drawn so far, to the handler of the slide.
\<close>

fun process_shapes ::
  "pptx_zip \<Rightarrow> (pystr option \<rightharpoonup> pystr) \<Rightarrow> nat \<Rightarrow> shape list \<Rightarrow> pdf \<times> real \<Rightarrow> py_error option \<times> pdf" where
  "process_shapes z relationships page [] s = (None, fst s)"
| "process_shapes z relationships page (Pic pic # rest) s =
     process_shapes z relationships page rest (process_pic z relationships page pic (fst s), snd s)"
| "process_shapes z relationships page (Sp sp # rest) s =
     (case process_sp page sp s of
        Inl e \<Rightarrow> (Some e, fst s)
      | Inr s' \<Rightarrow> process_shapes z relationships page rest s')"
| "process_shapes z relationships page (OtherShape # rest) s =
     process_shapes z relationships page rest s"
| "process_shapes z relationships page (NoTagShape m # rest) s = (Some (AttributeError m), fst s)"

definition slide_error_marker :: "(nat \<Rightarrow> bool) \<Rightarrow> nat \<Rightarrow> py_error \<Rightarrow> pdf \<Rightarrow> pdf" where
  "slide_error_marker printable page e d =
     draw page
       (Text (pp_margin, pp_margin) (str_of ''Error: '' @ message printable e) 11 Red) d"

definition process_slide :: "(nat \<Rightarrow> bool) \<Rightarrow> pptx_zip \<Rightarrow> pdf \<Rightarrow> nat \<times> pystr \<Rightarrow> pdf" where
  "process_slide printable z d idx_path =
     (let page = npages d;
          d1 = draw page
                 (Text (pp_page_width - pp_margin - 30, pp_page_height - 20)
                    (str_nat (fst idx_path + 1)) 10 Grey)
                 (pdf_new_page d);
          relationships = get_relationships z (snd idx_path)
      in case pptx_slide z (snd idx_path) of
           Inl e \<Rightarrow> slide_error_marker printable page e d1
         | Inr None \<Rightarrow> d1
         | Inr (Some sp_tree) \<Rightarrow>
             (case process_shapes z relationships page sp_tree (d1, pp_margin) of
                (None, d2) \<Rightarrow> d2
              | (Some e, d2) \<Rightarrow> slide_error_marker printable page e d2))"

text \<open>The loop over the listed slides and the blank page of lines 266-267.\<close>

definition pptx_render :: "(nat \<Rightarrow> bool) \<Rightarrow> pptx_zip \<Rightarrow> (nat \<times> pystr) list \<Rightarrow> pdf" where
  "pptx_render printable z listed =
     (let files = map snd listed;
          d = foldl (process_slide printable z) pdf_open (zip [0 ..< length files] files)
      in if npages d = 0 then pdf_new_page d else d)"

definition pptx_pages :: "(nat \<Rightarrow> bool) \<Rightarrow> pptx_zip \<Rightarrow> py_error + pdf" where
  "pptx_pages printable z =
     (case slide_files z of
        Inl e \<Rightarrow> Inl e
      | Inr listed \<Rightarrow> Inr (pptx_render printable z listed))"

definition convert_pptx_to_pdf ::
  "(nat \<Rightarrow> bool) \<Rightarrow> (8 word list \<Rightarrow> py_error + pptx_zip) \<Rightarrow> 8 word list \<Rightarrow> py_error + pdf" where
  "convert_pptx_to_pdf printable zip_open input_bytes =
     (case zip_open input_bytes of
        Inl (BadZipFile _) \<Rightarrow> Inl (ValueError (str_of ''Invalid PPTX file''))
      | Inl e \<Rightarrow> Inl e
      | Inr z \<Rightarrow> pptx_pages printable z)"

section \<open>Word-processor converter (word-to-pdf.worker.js)\<close>

text \<open>
  \<open>python-docx\<close> is outside the repository: \<open>Document(...)\<close> is a parameter of the
  converter, and what it returns is the list of body elements the loop walks over. A
  paragraph is its style name (\<open>None\<close> without a style) and its runs; a run is its
  drawings and its text; a drawing is the \<open>r:embed\<close> attribute of its blip (\<open>None\<close> without
  blip or attribute), what looking the image up yields, and the \<open>cx\<close> and \<open>cy\<close>
  attributes of its extent (\<open>None\<close> without an extent). A table is the number of its grid
  columns and the texts of the cells of each row. The loop tells the elements apart by
  the end of their tag (\<open>p\<close>, \<open>tbl\<close>). A child of the body that is no element (a comment
  or a processing instruction) has a function for its tag, and \<open>tag.endswith\<close> raises an
  \<open>AttributeError\<close>, whose text \<open>NoTagElement\<close> carries; nothing catches it.
\<close>

record drawing =
  dr_embed :: "pystr option"
  dr_blob :: "py_error + 8 word list"
  dr_extent :: "(pystr option \<times> pystr option) option"

record run =
  run_drawings :: "drawing list"
  run_text :: pystr

record para =
  style_name :: "pystr option"
  runs :: "run list"

record table =
  tbl_cols :: nat
  tbl_rows :: "pystr list list"

datatype body_element = Paragraph para | Table table | OtherElement | NoTagElement pystr

definition page_width :: real where "page_width = 595"
definition page_height :: real where "page_height = 842"
definition margin :: real where "margin = 72"
definition text_width :: real where "text_width = page_width - 2 * margin"
definition max_image_height :: real where "max_image_height = page_height - 2 * margin"

definition heading_fontsizes :: "pystr \<Rightarrow> real" where
  "heading_fontsizes name =
     (if name = str_of ''Heading 1'' then 14 else if name = str_of ''Heading 2'' then 13
      else if name = str_of ''Heading 3'' then 12 else if name = str_of ''Title'' then 18
      else if name = str_of ''Subtitle'' then 14 else 11)"

record wstate =
  w_doc :: pdf
  current_page :: "nat option"
  y_position :: real

definition new_page :: "wstate \<Rightarrow> wstate" where
  "new_page st =
     \<lparr>w_doc = pdf_new_page (w_doc st), current_page = Some (npages (w_doc st)),
      y_position = margin\<rparr>"

definition ensure_space :: "real \<Rightarrow> wstate \<Rightarrow> wstate" where
  "ensure_space needed_height st =
     (let st1 = (if current_page st = None then new_page st else st)
      in if needed_height > page_height - 2 * margin
         then (if y_position st1 > margin then new_page st1 else st1)
         else if y_position st1 + needed_height > page_height - margin then new_page st1
         else st1)"

text \<open>A draw call on \<open>current_page\<close>; on \<open>None\<close> Python raises \<open>AttributeError\<close>.\<close>

definition draw_current :: "draw_cmd \<Rightarrow> wstate \<Rightarrow> py_error + wstate" where
  "draw_current c st =
     (case current_page st of
        None \<Rightarrow> Inl (AttributeError (str_of ''NoneType object has no attribute''))
      | Some p \<Rightarrow> Inr (st\<lparr>w_doc := draw p c (w_doc st)\<rparr>))"

subsection \<open>flush_text (lines 142-179)\<close>

text \<open>\<open>text.split()\<close>: the maximal runs of non-whitespace characters.\<close>

fun split_ws :: "pystr \<Rightarrow> pystr \<Rightarrow> pystr list" where
  "split_ws w [] = (if w = [] then [] else [w])"
| "split_ws w (c # cs) =
     (if is_space c then (if w = [] then split_ws [] cs else w # split_ws [] cs)
      else split_ws (w @ [c]) cs)"

definition py_split :: "pystr \<Rightarrow> pystr list" where
  "py_split s = split_ws [] s"

definition est_w :: "real \<Rightarrow> pystr \<Rightarrow> real" where
  "est_w fontsize line = foldl (\<lambda>w ch. w + (if ch > 255 then fontsize else fontsize * 0.5)) 0 line"

text \<open>
  Drawing one line: \<open>ensure_space(lineheight)\<close>, \<open>insert_text\<close> at the cursor, then the
  cursor moves down by \<open>lineheight\<close>. In the source \<open>flush_text\<close> is a closure that reads
  \<open>lineheight\<close> from the paragraph around it; here it is the first argument. The two places
  that draw a line (inside the loop and after it) are the one function \<open>put_line\<close>.
\<close>

definition put_line :: "real \<Rightarrow> real \<Rightarrow> pystr \<Rightarrow> wstate \<Rightarrow> py_error + wstate" where
  "put_line lineheight fontsize line_buf st =
     (let st1 = ensure_space lineheight st
      in case draw_current (Text (margin, y_position st1 + fontsize) line_buf fontsize Black) st1 of
           Inl e \<Rightarrow> Inl e
         | Inr st2 \<Rightarrow> Inr (st2\<lparr>y_position := y_position st2 + lineheight\<rparr>))"

definition test_line :: "pystr \<Rightarrow> pystr \<Rightarrow> pystr" where
  "test_line line_buf word = line_buf @ (if line_buf \<noteq> [] then [32] else []) @ word"

fun flush_words :: "real \<Rightarrow> real \<Rightarrow> pystr list \<Rightarrow> pystr \<Rightarrow> wstate \<Rightarrow> py_error + wstate" where
  "flush_words lineheight fontsize [] line_buf st =
     (if line_buf \<noteq> [] then put_line lineheight fontsize line_buf st else Inr st)"
| "flush_words lineheight fontsize (word # rest) line_buf st =
     (if est_w fontsize (test_line line_buf word) > text_width \<and> line_buf \<noteq> []
      then (case put_line lineheight fontsize line_buf st of
              Inl e \<Rightarrow> Inl e
            | Inr st1 \<Rightarrow> flush_words lineheight fontsize rest word st1)
      else flush_words lineheight fontsize rest (test_line line_buf word) st)"

definition flush_text :: "real \<Rightarrow> pystr \<Rightarrow> real \<Rightarrow> wstate \<Rightarrow> py_error + wstate" where
  "flush_text lineheight text fontsize st =
     (if text = [] then Inr st else flush_words lineheight fontsize (py_split text) [] st)"

subsection \<open>Images (lines 189-227)\<close>

definition emu_to_pt :: "int \<Rightarrow> real" where
  "emu_to_pt emu = real_of_int emu / 12700"

definition attr_int :: "pystr option \<Rightarrow> py_error + int" where
  "attr_int a =
     (case a of None \<Rightarrow> Inl (TypeError (str_of ''int() argument must be a string'')) | Some s \<Rightarrow> py_int s)"

definition extent_size :: "(pystr option \<times> pystr option) option \<Rightarrow> py_error + int \<times> int" where
  "extent_size extent =
     (case extent of
        None \<Rightarrow> Inr (1270000, 1270000)
      | Some (a, b) \<Rightarrow>
          (case attr_int a of
             Inl e \<Rightarrow> Inl e
           | Inr cx \<Rightarrow> (case attr_int b of Inl e \<Rightarrow> Inl e | Inr cy \<Rightarrow> Inr (cx, cy))))"

text \<open>Lines 205-218: the size in points after the two scale-downs.\<close>

definition fit_width :: "real \<times> real \<Rightarrow> real \<times> real" where
  "fit_width wh =
     (if fst wh > text_width
      then (fst wh * (text_width / fst wh), snd wh * (text_width / fst wh))
      else wh)"

definition fit_height :: "real \<times> real \<Rightarrow> real \<times> real" where
  "fit_height wh =
     (if snd wh > max_image_height
      then (fst wh * (max_image_height / snd wh), snd wh * (max_image_height / snd wh))
      else wh)"

definition scale_image :: "int \<Rightarrow> int \<Rightarrow> real \<times> real" where
  "scale_image cx cy = fit_height (fit_width (emu_to_pt cx, emu_to_pt cy))"

definition image_rect :: "real \<Rightarrow> real \<times> real \<Rightarrow> real \<times> real \<times> real \<times> real" where
  "image_rect y wh =
     (let x_offset = margin + (text_width - fst wh) / 2
      in (x_offset, y, x_offset + fst wh, y + snd wh))"

text \<open>
  The body of the \<open>try\<close> around one drawing; the handler is \<open>pass\<close>, so the state reached
  when the exception was raised stays.
\<close>

definition place_image :: "drawing \<Rightarrow> wstate \<Rightarrow> wstate" where
  "place_image dr st =
     (case dr_blob dr of
        Inl _ \<Rightarrow> st
      | Inr image_bytes \<Rightarrow>
          (case extent_size (dr_extent dr) of
             Inl _ \<Rightarrow> st
           | Inr (cx, cy) \<Rightarrow>
               (let wh = scale_image cx cy;
                    st1 = ensure_space (snd wh + 10) st
                in case draw_current (Image (image_rect (y_position st1) wh) image_bytes) st1 of
                     Inl _ \<Rightarrow> st1
                   | Inr st2 \<Rightarrow> st2\<lparr>y_position := y_position st2 + snd wh + 5\<rparr>)))"

definition place_drawings :: "drawing list \<Rightarrow> wstate \<Rightarrow> wstate" where
  "place_drawings ds st =
     foldl (\<lambda>s dr. case dr_embed dr of
                      None \<Rightarrow> s
                    | Some embed_id \<Rightarrow> if embed_id = [] then s else place_image dr s) st ds"

subsection \<open>Paragraphs (lines 131-236)\<close>

fun process_runs ::
  "real \<Rightarrow> real \<Rightarrow> run list \<Rightarrow> pystr \<Rightarrow> wstate \<Rightarrow> py_error + pystr \<times> wstate" where
  "process_runs lineheight base_fontsize [] current_line_text st = Inr (current_line_text, st)"
| "process_runs lineheight base_fontsize (r # rest) current_line_text st =
     (if run_drawings r \<noteq> []
      then (case (if current_line_text \<noteq> []
                  then flush_text lineheight current_line_text base_fontsize st else Inr st) of
              Inl e \<Rightarrow> Inl e
            | Inr st1 \<Rightarrow>
                process_runs lineheight base_fontsize rest (run_text r)
                  (place_drawings (run_drawings r) st1))
      else process_runs lineheight base_fontsize rest (current_line_text @ run_text r) st)"

definition process_paragraph :: "para \<Rightarrow> wstate \<Rightarrow> py_error + wstate" where
  "process_paragraph p st =
     (let base_fontsize = heading_fontsizes
                            (case style_name p of None \<Rightarrow> str_of ''Normal'' | Some n \<Rightarrow> n);
          lineheight = base_fontsize * 1.4
      in case process_runs lineheight base_fontsize (runs p) [] st of
           Inl e \<Rightarrow> Inl e
         | Inr (current_line_text, st1) \<Rightarrow>
             (case (if current_line_text \<noteq> []
                    then flush_text lineheight current_line_text base_fontsize st1 else Inr st1) of
                Inl e \<Rightarrow> Inl e
              | Inr st2 \<Rightarrow> Inr (st2\<lparr>y_position := y_position st2 + base_fontsize * 0.5\<rparr>)))"

subsection \<open>Tables (lines 238-300)\<close>

definition tbl_row_height :: real where "tbl_row_height = 11 * 2"

definition tbl_col_width :: "nat \<Rightarrow> real" where
  "tbl_col_width cols = (if cols > 0 then text_width / real cols else 0)"

text \<open>
  The loop over the cells of one row. After the text box of a non-empty cell is drawn,
  line 288 divides by \<open>col_width\<close>; with a zero width Python raises
  \<open>ZeroDivisionError\<close>, which nothing in the converter catches.
\<close>

fun render_cells :: "real \<Rightarrow> real \<Rightarrow> real \<Rightarrow> pystr list \<Rightarrow> wstate \<Rightarrow> py_error + wstate" where
  "render_cells col_width initial_y x [] st = Inr st"
| "render_cells col_width initial_y x (cell # rest) st =
     (if py_strip cell = [] then render_cells col_width initial_y (x + col_width) rest st
      else (case draw_current
                   (TextBox (x + 2, initial_y + 2, x + col_width - 2, initial_y + 1000)
                      (py_strip cell) 10) st of
              Inl e \<Rightarrow> Inl e
            | Inr st1 \<Rightarrow>
                if col_width = 0 then Inl (ZeroDivisionError (str_of ''division by zero''))
                else render_cells col_width initial_y (x + col_width) rest st1))"

definition render_row :: "real \<Rightarrow> pystr list \<Rightarrow> wstate \<Rightarrow> py_error + wstate" where
  "render_row col_width row st =
     (let st1 = ensure_space tbl_row_height st
      in case render_cells col_width (y_position st1) margin row st1 of
           Inl e \<Rightarrow> Inl e
         | Inr st2 \<Rightarrow> Inr (st2\<lparr>y_position := y_position st2 + tbl_row_height\<rparr>))"

fun render_rows :: "real \<Rightarrow> pystr list list \<Rightarrow> wstate \<Rightarrow> py_error + wstate" where
  "render_rows col_width [] st = Inr st"
| "render_rows col_width (row # rest) st =
     (case render_row col_width row st of
        Inl e \<Rightarrow> Inl e
      | Inr st1 \<Rightarrow> render_rows col_width rest st1)"

definition process_table :: "table \<Rightarrow> wstate \<Rightarrow> py_error + wstate" where
  "process_table t st =
     (case render_rows (tbl_col_width (tbl_cols t)) (tbl_rows t) st of
        Inl e \<Rightarrow> Inl e
      | Inr st1 \<Rightarrow> Inr (st1\<lparr>y_position := y_position st1 + 10\<rparr>))"

subsection \<open>convert_word_to_pdf\<close>

fun process_body :: "body_element list \<Rightarrow> wstate \<Rightarrow> py_error + wstate" where
  "process_body [] st = Inr st"
| "process_body (Paragraph p # rest) st =
     (case process_paragraph p st of Inl e \<Rightarrow> Inl e | Inr st1 \<Rightarrow> process_body rest st1)"
| "process_body (Table t # rest) st =
     (case process_table t st of Inl e \<Rightarrow> Inl e | Inr st1 \<Rightarrow> process_body rest st1)"
| "process_body (OtherElement # rest) st = process_body rest st"
| "process_body (NoTagElement m # rest) st = Inl (AttributeError m)"

definition word_start :: wstate where
  "word_start = new_page \<lparr>w_doc = pdf_open, current_page = None, y_position = margin\<rparr>"

definition convert_word_to_pdf ::
  "(8 word list \<Rightarrow> py_error + body_element list) \<Rightarrow> 8 word list \<Rightarrow> py_error + pdf" where
  "convert_word_to_pdf document input_bytes =
     (case document input_bytes of
        Inl e \<Rightarrow> Inl e
      | Inr body \<Rightarrow>
          (case process_body body word_start of
             Inl e \<Rightarrow> Inl e
           | Inr st \<Rightarrow> Inr (w_doc st)))"


section \<open>The layout rules in the words of the specification\<close>

text \<open>
  Greedy word-wrap as the specification words it: a character of code point above 255
  is one font size wide and any other half a font size; a word that would push the
  estimate of a non-empty buffer past the text width closes the buffer as a line and
  starts the next buffer; what is left in the buffer at the end is the last line.
\<close>

definition glyph_width :: "real \<Rightarrow> nat \<Rightarrow> real" where
  "glyph_width fontsize ch = (if ch > 255 then fontsize else fontsize * 0.5)"

definition line_width :: "real \<Rightarrow> pystr \<Rightarrow> real" where
  "line_width fontsize line = sum_list (map (glyph_width fontsize) line)"

definition append_word :: "pystr \<Rightarrow> pystr \<Rightarrow> pystr" where
  "append_word buf word = (if buf = [] then word else buf @ [32] @ word)"

fun greedy_wrap :: "real \<Rightarrow> pystr list \<Rightarrow> pystr \<Rightarrow> pystr list" where
  "greedy_wrap fontsize [] buf = (if buf = [] then [] else [buf])"
| "greedy_wrap fontsize (word # rest) buf =
     (if buf \<noteq> [] \<and> line_width fontsize (append_word buf word) > text_width
      then buf # greedy_wrap fontsize rest word
      else greedy_wrap fontsize rest (append_word buf word))"

text \<open>Drawing the lines one after the other, each with \<open>put_line\<close>.\<close>

fun put_lines :: "real \<Rightarrow> real \<Rightarrow> pystr list \<Rightarrow> wstate \<Rightarrow> py_error + wstate" where
  "put_lines lineheight fontsize [] st = Inr st"
| "put_lines lineheight fontsize (l # ls) st =
     (case put_line lineheight fontsize l st of
        Inl e \<Rightarrow> Inl e
      | Inr st1 \<Rightarrow> put_lines lineheight fontsize ls st1)"

text \<open>
  The text boxes of one table row as the specification words them: cell \<open>i\<close> sits at the
  sum of the widths of the columns before it; empty cells draw nothing. The spreadsheet
  has one width per column, the word-processor table one width for all columns.
\<close>

definition xl_box :: "nat list \<Rightarrow> real \<Rightarrow> nat \<Rightarrow> pystr \<Rightarrow> draw_cmd" where
  "xl_box ws y i cell_text =
     TextBox (xl_margin + real (sum_list (take i ws)) + 2, y + 2,
              xl_margin + real (sum_list (take (Suc i) ws)) - 2, y + xl_row_height - 1)
       cell_text xl_fontsize"

definition xl_row_boxes :: "nat list \<Rightarrow> real \<Rightarrow> pystr list \<Rightarrow> draw_cmd list" where
  "xl_row_boxes ws y row =
     concat (map (\<lambda>i. if row ! i = [] then [] else [xl_box ws y i (row ! i)])
               [0 ..< min (length row) (length ws)])"

definition word_box :: "real \<Rightarrow> real \<Rightarrow> nat \<Rightarrow> pystr \<Rightarrow> draw_cmd" where
  "word_box col_width y i cell_text =
     TextBox (margin + real i * col_width + 2, y + 2,
              margin + real (Suc i) * col_width - 2, y + 1000)
       cell_text 10"

definition word_row_boxes :: "real \<Rightarrow> real \<Rightarrow> pystr list \<Rightarrow> draw_cmd list" where
  "word_row_boxes col_width y row =
     concat (map (\<lambda>i. if py_strip (row ! i) = [] then []
                       else [word_box col_width y i (py_strip (row ! i))])
               [0 ..< length row])"





section \<open>Concrete inputs\<close>

text \<open>The rich-text scenario \<^verbatim>\<open>{\rtf1 Hello\par World}\<close> and the document \<^verbatim>\<open>{\rtf1}\<close>.\<close>

definition rtf_hello :: pystr where
  "rtf_hello = str_of (''{'' @ [CHR 0x5C] @ ''rtf1 Hello'' @ [CHR 0x5C] @ ''par World}'')"

definition rtf_empty_doc :: "8 word list" where
  "rtf_empty_doc = [0x7B, 0x5C, 0x72, 0x74, 0x66, 0x31, 0x7D]"


text \<open>
  The printable test of the Unicode database on the code points from 128 to 255 (the
  letters and signs of Latin-1 but not its control characters, its no-break space and its
  soft hyphen); no code point above them is taken as printable.
\<close>

definition latin1_printable :: "nat \<Rightarrow> bool" where
  "latin1_printable c = (160 < c \<and> c < 256 \<and> c \<noteq> 173)"

text \<open>An opener that accepts exactly the buffers starting with the zip magic \<open>PK\<close>.\<close>

definition magic_open :: "'a \<Rightarrow> 8 word list \<Rightarrow> py_error + 'a" where
  "magic_open z b =
     (if take 2 b = [0x50, 0x4B] then Inr z
      else Inl (BadZipFile (str_of ''File is not a zip file'')))"

definition empty_xlsx :: xlsx_zip where
  "empty_xlsx = \<lparr>xlsx_namelist = [], xlsx_shared = Inr [],
     xlsx_sheet = (\<lambda>_. Inl (KeyError (str_of ''no such part'')))\<rparr>"

definition empty_pptx :: pptx_zip where
  "empty_pptx = \<lparr>pptx_namelist = [],
     pptx_slide = (\<lambda>_. Inl (KeyError (str_of ''no such part''))),
     pptx_rels = (\<lambda>_. Inl (KeyError (str_of ''no such part''))),
     pptx_read = (\<lambda>_. Inl (KeyError (str_of ''no such part'')))\<rparr>"


definition two_cells_drawn :: wstate where
  "two_cells_drawn =
     \<lparr>w_doc = \<lparr>npages = 1,
               cmds = [(0, TextBox (74, 74, 591 / 2, 1072) (str_of ''a'') 10),
                       (0, TextBox (599 / 2, 74, 521, 1072) (str_of ''b'') 10)]\<rparr>,
      current_page = Some 0, y_position = 94\<rparr>"







text \<open>A workbook whose only sheet has a number of 4301 digits in its name.\<close>

definition long_sheet_name :: pystr where
  "long_sheet_name = str_of ''xl/worksheets/sheet'' @ replicate 4301 49 @ str_of ''.xml''"

definition long_number_xlsx :: xlsx_zip where
  "long_number_xlsx =
     \<lparr>xlsx_namelist = [long_sheet_name], xlsx_shared = Inr [],
      xlsx_sheet = (\<lambda>_. Inr [])\<rparr>"

section \<open>Properties\<close>

subsection \<open>Shared lemmas\<close>



lemma parse_template_backslash:
  "parse_template [92] = Inl (ReError (str_of ''bad escape (end of pattern)''))"
  by simp

lemma strip_rtf_raises: "strip_rtf t = Inl (ReError (str_of ''bad escape (end of pattern)''))"
  by (simp add: strip_rtf_def)

lemma decode_rtf_total: "\<exists>s. decode_rtf bs = Inr s"
  by (simp add: decode_rtf_def bytes_decode_def split: option.split)

lemma convert_rtf_raises:
  "convert_rtf_to_pdf bs = Inl (ReError (str_of ''bad escape (end of pattern)''))"
proof -
  obtain s where "decode_rtf bs = Inr s" using decode_rtf_total by blast
  then show ?thesis by (simp add: convert_rtf_to_pdf_def strip_rtf_raises)
qed

lemma rtf_render_empty: "rtf_render [] = \<lparr>npages = 1, cmds = []\<rparr>"
  by (simp add: rtf_render_def pdf_open_def pdf_new_page_def py_strip_def)

lemma excel_no_sheets:
  "sheet_files z = Inr [] \<Longrightarrow> excel_pages printable z = Inr \<lparr>npages = 1, cmds = []\<rparr>"
  by (simp add: excel_pages_def excel_render_def pdf_open_def pdf_new_page_def)

lemma pptx_no_slides:
  "slide_files z = Inr [] \<Longrightarrow> pptx_pages printable z = Inr \<lparr>npages = 1, cmds = []\<rparr>"
  by (simp add: pptx_pages_def pptx_render_def pdf_open_def pdf_new_page_def)

text \<open>
  An exception of \<open>int()\<close> at line 107 of the spreadsheet converter or line 99 of the
  presentation converter leaves the converter: no document is returned.
\<close>

lemma listing_error_propagates:
  "zip_open b = Inr z \<Longrightarrow> sheet_files z = Inl e \<Longrightarrow>
   convert_excel_to_pdf printable zip_open b = Inl e"
  "pptx_open b = Inr pz \<Longrightarrow> slide_files pz = Inl e \<Longrightarrow>
   convert_pptx_to_pdf printable pptx_open b = Inl e"
  by (simp_all add: convert_excel_to_pdf_def excel_pages_def convert_pptx_to_pdf_def
      pptx_pages_def)

text \<open>
  A numeral of digits \<open>1\<close> only is valid, and one of 4301 digits is over the digit
  limit: as a shared-string index it leaves the literal text in the cell (line 145), as
  the number of a sheet it ends the conversion.
\<close>

lemma valid_digits_ones: "valid_digits (replicate (Suc n) 49)"
  by (induction n) (simp_all add: is_digit_def)

lemma py_int_ones:
  "py_int (replicate (Suc n) 49)
     = (if Suc n > max_str_digits then Inl (DigitLimit (Suc n))
        else Inr (digits_value (replicate (Suc n) 49)))"
proof -
  have keep: "dropWhile is_int_space xs = xs" if "xs \<noteq> []" and "hd xs = 49" for xs
    using that by (cases xs) (simp_all add: is_int_space_def)
  have ones: "replicate (Suc n) 49 \<noteq> []" "hd (replicate (Suc n) 49) = 49"
    by simp_all
  have strip: "int_strip (replicate (Suc n) 49) = replicate (Suc n) 49"
    unfolding int_strip_def by (simp only: keep [OF ones] rev_replicate)
  have count: "length (filter is_digit (replicate (Suc n) 49)) = Suc n"
    by (simp add: is_digit_def)
  show ?thesis
    unfolding py_int_def strip Let_def using valid_digits_ones[of n] count by simp
qed

lemma cell_value_literal_fallback:
  assumes "t_attr c = Some (str_of ''s'')" and "v_text c = Some v" and "v \<noteq> []"
    and "py_int v = Inl e"
  shows "cell_value shared_strings c = v"
  using assms by (simp add: cell_value_def shared_ref_def)

lemma py_int_over_limit: "py_int (replicate 4301 49) = Inl (DigitLimit 4301)"
  using py_int_ones [of 4300] by (simp add: max_str_digits_def)

lemma long_index_keeps_literal:
  "cell_value shared_strings
     \<lparr>t_attr = Some (str_of ''s''), v_text = Some (replicate 4301 49), is_texts = None\<rparr>
   = replicate 4301 49"
  using py_int_over_limit by (intro cell_value_literal_fallback) simp_all

lemma part_number_over_limit:
  "part_number (str_of ''sheet'') (long_sheet_name) = Inl (DigitLimit 4301)"
proof -
  let ?pre = "str_of ''xl/worksheets/sheet''"
  let ?ones = "replicate 4301 (49::nat)"
  have name: "long_sheet_name = (?pre @ ?ones) @ str_of ''.xml''"
    by (simp add: long_sheet_name_def)
  have body: "take (length long_sheet_name - 4) long_sheet_name = ?pre @ ?ones"
    unfolding name by (simp add: str_of_def)
  have digits: "takeWhile is_digit (rev (?pre @ ?ones)) = ?ones"
  proof -
    have "takeWhile is_digit (?ones @ rev ?pre) = ?ones @ takeWhile is_digit (rev ?pre)"
      by (rule takeWhile_append2) (simp add: is_digit_def)
    moreover have "takeWhile is_digit (rev ?pre) = []"
      by (simp add: str_of_def is_digit_def)
    ultimately show ?thesis by simp
  qed
  have pre: "take (length (?pre @ ?ones) - length ?ones) (?pre @ ?ones) = ?pre"
    by simp
  have ends: "endswith ?pre (str_of ''sheet'')"
    by (simp add: endswith_def str_of_def)
  have nonempty: "?ones \<noteq> []" by simp
  show ?thesis
    unfolding part_number_def body Let_def digits rev_replicate pre
    using ends nonempty py_int_over_limit by simp
qed

lemma long_sheet_number_ends_conversion:
  "sheet_files long_number_xlsx = Inl (DigitLimit 4301)"
  "convert_excel_to_pdf printable (magic_open long_number_xlsx) [0x50, 0x4B]
     = Inl (DigitLimit 4301)"
proof -
  let ?pre = "str_of ''xl/worksheets/sheet''"
  have starts: "startswith long_sheet_name ?pre"
    by (simp add: startswith_def long_sheet_name_def)
  have ends: "endswith long_sheet_name (str_of ''.xml'')"
    by (simp add: endswith_def long_sheet_name_def)
  show files: "sheet_files long_number_xlsx = Inl (DigitLimit 4301)"
    using starts ends part_number_over_limit
    by (simp add: sheet_files_def part_files_def long_number_xlsx_def)
  then show "convert_excel_to_pdf printable (magic_open long_number_xlsx) [0x50, 0x4B]
     = Inl (DigitLimit 4301)"
    by (simp add: convert_excel_to_pdf_def magic_open_def excel_pages_def)
qed

text \<open>
  The presentation converter's \<open>emu_to_pt\<close>: 12700 units are one point, and the division
  overflows from \<open>12700 * (2^1024 - 2^970)\<close> on.
\<close>

lemma pp_emu_to_pt_one: "pp_emu_to_pt (Some (str_of ''12700'')) = Inr 1"
  by (simp add: pp_emu_to_pt_def py_int_def int_strip_def is_int_space_def is_digit_def
      digits_value_def max_str_digits_def true_div_overflows_def str_of_def)

lemma true_div_overflows_threshold:
  "true_div_overflows (12700 * (2 ^ 1024 - 2 ^ 970))"
  "\<not> true_div_overflows (12700 * (2 ^ 1024 - 2 ^ 970) - 1)"
  by (simp_all add: true_div_overflows_def)

subsection \<open>Spreadsheet cells\<close>




subsection \<open>Rich-text extraction\<close>

text \<open>
  C2, as amended. On the scenario input the control-word pass and the brace pass leave
  exactly \<open>HelloWorld\<close>: \<open>\par\<close> goes with its trailing space and no newline is put
  in its place. That text has no backslash, hex escape, newline or outer whitespace, so
  the later passes leave it as it is, whatever the replacement of the third pass.
\<close>

theorem strip_rtf_hello_passes:
  "strip_braces (strip_control_words rtf_hello) = str_of ''HelloWorld''
   \<and> py_strip (collapse_newlines (decode_hex
        (sub_double_backslash repl (str_of ''HelloWorld'')))) = str_of ''HelloWorld''"
  by (simp add: rtf_hello_def str_of_def strip_braces_def is_lower_def is_digit_def
      drop_opt_space_def py_strip_def is_space_def)

text \<open>
  C2 as stated fails: the extraction does not return \<open>Hello\<close>, newline, \<open>World\<close>, and
  the text left by the first two passes has no newline at all.
\<close>

theorem strip_rtf_hello_counterexample:
  "strip_rtf rtf_hello \<noteq> Inr (str_of ''Hello'' @ [10] @ str_of ''World'')
   \<and> strip_braces (strip_control_words rtf_hello) \<noteq> str_of ''Hello'' @ [10] @ str_of ''World''
   \<and> 10 \<notin> set (strip_braces (strip_control_words rtf_hello))"
  by (simp add: strip_rtf_raises)
     (simp add: rtf_hello_def str_of_def strip_braces_def is_lower_def is_digit_def
      drop_opt_space_def)

subsection \<open>Empty input\<close>

text \<open>
  C5 at the rich-text document \<^verbatim>\<open>{\rtf1}\<close>, which has no text line: the bytes decode,
  and the conversion then raises \<open>re.error\<close> in the third pass of \<open>strip_rtf\<close> instead
  of returning a document of one blank page.
\<close>

theorem convert_rtf_empty_doc_raises:
  "decode_rtf rtf_empty_doc = Inr (str_of (''{'' @ [CHR 0x5C] @ ''rtf1}''))
   \<and> convert_rtf_to_pdf rtf_empty_doc = Inl (ReError (str_of ''bad escape (end of pattern)''))"
  by (simp add: convert_rtf_raises)
     (simp add: rtf_empty_doc_def decode_rtf_def bytes_decode_def str_of_def)

subsection \<open>Decoding\<close>

text \<open>
  C10. For every byte sequence the decoding step of the rich-text converter returns a
  string and never raises: it is the UTF-8 decoding when that succeeds and otherwise the
  Latin-1 decoding, which gives one character per byte. The conversion never ends in a
  \<open>UnicodeDecodeError\<close>.
\<close>

theorem decode_rtf_never_raises:
  "(\<exists>s. decode_rtf bs = Inr s)
   \<and> decode_rtf bs = (case bytes_decode UTF8 bs of Inr s \<Rightarrow> Inr s | Inl e \<Rightarrow> Inr (map unat bs))
   \<and> (\<exists>s. bytes_decode Latin1 bs = Inr s \<and> length s = length bs)
   \<and> (\<forall>m. convert_rtf_to_pdf bs \<noteq> Inl (UnicodeDecodeError m))"
  by (simp add: decode_rtf_total convert_rtf_raises)
     (simp add: decode_rtf_def bytes_decode_def split: sum.split)

subsection \<open>Corrupt archives\<close>

text \<open>
  C4. When the buffer is not a zip archive (the opener raises \<open>BadZipFile\<close>), the
  spreadsheet and the presentation conversion raise \<open>ValueError\<close> with their
  invalid-file message and the word-processor conversion lets the opener's exception
  through. Whatever the opener raises, the result is an exception and no document.
\<close>

theorem corrupt_archive_fails:
  "(xlsx_open b = Inl (BadZipFile m)
      \<longrightarrow> convert_excel_to_pdf printable xlsx_open b
            = Inl (ValueError (str_of ''Invalid XLSX file'')))
   \<and> (pptx_open b = Inl (BadZipFile m)
      \<longrightarrow> convert_pptx_to_pdf printable pptx_open b
            = Inl (ValueError (str_of ''Invalid PPTX file'')))
   \<and> (document b = Inl (BadZipFile m)
      \<longrightarrow> convert_word_to_pdf document b = Inl (BadZipFile m))
   \<and> (xlsx_open b = Inl err \<longrightarrow> (\<exists>e. convert_excel_to_pdf printable xlsx_open b = Inl e))
   \<and> (pptx_open b = Inl err \<longrightarrow> (\<exists>e. convert_pptx_to_pdf printable pptx_open b = Inl e))
   \<and> (document b = Inl err \<longrightarrow> convert_word_to_pdf document b = Inl err)"
  by (simp add: convert_excel_to_pdf_def convert_pptx_to_pdf_def convert_word_to_pdf_def
      split: py_error.split)

text \<open>C4 at the one-byte buffer \<open>{\<close>, which lacks the zip magic.\<close>

theorem corrupt_archive_fails_witness:
  "magic_open empty_xlsx [0x7B] = Inl (BadZipFile (str_of ''File is not a zip file''))
   \<and> convert_excel_to_pdf latin1_printable (magic_open empty_xlsx) [0x7B]
       = Inl (ValueError (str_of ''Invalid XLSX file''))
   \<and> magic_open empty_pptx [0x7B] = Inl (BadZipFile (str_of ''File is not a zip file''))
   \<and> convert_pptx_to_pdf latin1_printable (magic_open empty_pptx) [0x7B]
       = Inl (ValueError (str_of ''Invalid PPTX file''))
   \<and> magic_open [] [0x7B] = Inl (BadZipFile (str_of ''File is not a zip file''))
   \<and> convert_word_to_pdf (magic_open []) [0x7B]
       = Inl (BadZipFile (str_of ''File is not a zip file''))"
  using corrupt_archive_fails [of "magic_open empty_xlsx" "[0x7B]"
      "str_of ''File is not a zip file''" latin1_printable "magic_open empty_pptx"
      "magic_open []" "BadZipFile (str_of ''File is not a zip file'')"]
  by (simp add: magic_open_def)

subsection \<open>Pagination\<close>

lemma ensure_space_has_page: "\<exists>p. current_page (ensure_space h st) = Some p"
  by (cases "current_page st") (auto simp: ensure_space_def new_page_def Let_def)

lemma ensure_space_cmds: "cmds (w_doc (ensure_space h st)) = cmds (w_doc st)"
  by (simp add: ensure_space_def new_page_def pdf_new_page_def)

text \<open>
  C6. With a current page, \<open>ensure_space h\<close> starts a new page and resets \<open>y\<close> to the
  margin when \<open>y + h\<close> exceeds the page height less the margin, unless \<open>h\<close> exceeds the
  usable page height; then it starts a new page only if the cursor is below the top
  margin. A new page adds one page, no call draws anything, and a second call right
  after the first changes nothing: at most one page is started for a block.
\<close>

theorem ensure_space_pagination:
  assumes "current_page st = Some p"
  shows "ensure_space h st =
           (if h > page_height - 2 * margin
            then (if y_position st > margin then new_page st else st)
            else if y_position st + h > page_height - margin then new_page st else st)
    \<and> y_position (new_page st) = margin
    \<and> npages (w_doc (new_page st)) = Suc (npages (w_doc st))
    \<and> cmds (w_doc (ensure_space h st)) = cmds (w_doc st)
    \<and> ensure_space h (ensure_space h st) = ensure_space h st"
  using assms
  by (auto simp: ensure_space_def new_page_def pdf_new_page_def page_height_def margin_def)

text \<open>C6 on the first page: a line that fits, a line that does not, and an oversized block.\<close>

theorem ensure_space_pagination_witness:
  "current_page word_start = Some 0
   \<and> ensure_space 15.4 word_start = word_start
   \<and> ensure_space 15.4 (word_start\<lparr>y_position := 760\<rparr>)
       = \<lparr>w_doc = \<lparr>npages = 2, cmds = []\<rparr>, current_page = Some 1, y_position = 72\<rparr>
   \<and> ensure_space 700 (word_start\<lparr>y_position := 100\<rparr>)
       = \<lparr>w_doc = \<lparr>npages = 2, cmds = []\<rparr>, current_page = Some 1, y_position = 72\<rparr>
   \<and> ensure_space 700 word_start = word_start"
  using ensure_space_pagination [of word_start 0 "15.4"]
    ensure_space_pagination [of "word_start\<lparr>y_position := 760\<rparr>" 0 "15.4"]
    ensure_space_pagination [of "word_start\<lparr>y_position := 100\<rparr>" 0 700]
    ensure_space_pagination [of word_start 0 700]
  by (simp add: word_start_def new_page_def pdf_open_def pdf_new_page_def page_height_def
      margin_def)

subsection \<open>Images\<close>



lemma uniform_scale:
  fixes w h k :: real
  assumes "0 < w" "0 < h" "0 < k"
  shows "0 < w * k \<and> 0 < h * k \<and> (w * k) / (h * k) = w / h"
  using assms by simp







subsection \<open>Word wrap\<close>

lemma put_line_ok:
  "\<exists>p. current_page (ensure_space lh st) = Some p
     \<and> put_line lh fs l st =
         Inr ((ensure_space lh st)
               \<lparr>w_doc := draw p (Text (margin, y_position (ensure_space lh st) + fs) l fs Black)
                           (w_doc (ensure_space lh st)),
                y_position := y_position (ensure_space lh st) + lh\<rparr>)"
proof -
  obtain p where "current_page (ensure_space lh st) = Some p"
    using ensure_space_has_page by blast
  then show ?thesis by (simp add: put_line_def draw_current_def Let_def)
qed

lemma est_w_from:
  "foldl (\<lambda>w ch. w + (if ch > 255 then fs else fs * 0.5)) a line = a + line_width fs line"
  by (induction line arbitrary: a) (simp_all add: line_width_def glyph_width_def)

lemma est_w_line_width: "est_w fs line = line_width fs line"
  by (simp add: est_w_def est_w_from)

lemma test_line_append_word: "test_line buf word = append_word buf word"
  by (simp add: test_line_def append_word_def)

lemma flush_words_greedy:
  "flush_words lh fs ws buf st = put_lines lh fs (greedy_wrap fs ws buf) st"
proof (induction ws arbitrary: buf st)
  case Nil
  show ?case by (simp split: sum.split)
next
  case (Cons w ws)
  show ?case
  proof (cases "buf \<noteq> [] \<and> line_width fs (append_word buf w) > text_width")
    case True
    then show ?thesis
      by (simp add: est_w_line_width test_line_append_word Cons.IH split: sum.split)
  next
    case False
    then show ?thesis
      by (auto simp: est_w_line_width test_line_append_word Cons.IH)
  qed
qed

text \<open>
  C9. The width estimate of a line is the sum over its characters of the font size for a
  code point above 255 and of half the font size otherwise. \<open>flush_text\<close> draws exactly
  the lines of the greedy wrap of the words of the text, in order, each with
  \<open>put_line\<close>; and \<open>put_line\<close> always succeeds: after \<open>ensure_space\<close> it draws the line
  at the cursor and moves the cursor down by the line height, 1.4 times the font size.
\<close>

theorem flush_text_greedy_wrap:
  "est_w fontsize line = sum_list (map (\<lambda>ch. if ch > 255 then fontsize else fontsize * 0.5) line)
   \<and> flush_text (fontsize * 1.4) text fontsize st
       = put_lines (fontsize * 1.4) fontsize (greedy_wrap fontsize (py_split text) []) st
   \<and> (\<exists>p. current_page (ensure_space (fontsize * 1.4) st) = Some p
        \<and> put_line (fontsize * 1.4) fontsize line st =
            Inr ((ensure_space (fontsize * 1.4) st)
                  \<lparr>w_doc := draw p (Text (margin, y_position (ensure_space (fontsize * 1.4) st)
                                                    + fontsize) line fontsize Black)
                              (w_doc (ensure_space (fontsize * 1.4) st)),
                   y_position := y_position (ensure_space (fontsize * 1.4) st)
                                 + fontsize * 1.4\<rparr>))"
proof -
  have "est_w fontsize line
      = sum_list (map (\<lambda>ch. if ch > 255 then fontsize else fontsize * 0.5) line)"
    by (simp add: est_w_line_width line_width_def glyph_width_def [abs_def])
  moreover have "flush_text (fontsize * 1.4) text fontsize st
       = put_lines (fontsize * 1.4) fontsize (greedy_wrap fontsize (py_split text) []) st"
  proof (cases "text = []")
    case True
    then show ?thesis by (simp add: flush_text_def py_split_def)
  next
    case False
    then show ?thesis by (simp add: flush_text_def flush_words_greedy)
  qed
  ultimately show ?thesis using put_line_ok[of "fontsize * 1.4" st fontsize line] by simp
qed

text \<open>
  C9 on \<open>abcd efgh ij\<close> at font size 100: the first two words are 450 wide together and
  fit the 451 points of the text width, the third does not fit and starts the second line.
\<close>

theorem flush_text_greedy_wrap_witness:
  "greedy_wrap 100 (py_split (str_of ''abcd efgh ij'')) []
     = [str_of ''abcd efgh'', str_of ''ij'']
   \<and> est_w 100 (str_of ''abcd efgh'') = 450
   \<and> flush_text (100 * 1.4) (str_of ''abcd efgh ij'') 100 word_start
     = Inr \<lparr>w_doc = \<lparr>npages = 1,
                      cmds = [(0, Text (72, 172) (str_of ''abcd efgh'') 100 Black),
                              (0, Text (72, 312) (str_of ''ij'') 100 Black)]\<rparr>,
            current_page = Some 0, y_position = 352\<rparr>"
  using flush_text_greedy_wrap [of 100 "str_of ''abcd efgh''" "str_of ''abcd efgh ij''" word_start]
  by (simp add: py_split_def str_of_def is_space_def append_word_def line_width_def
      glyph_width_def text_width_def page_width_def page_height_def margin_def put_line_def
      word_start_def new_page_def pdf_open_def pdf_new_page_def ensure_space_def
      draw_current_def draw_def Let_def)

subsection \<open>Table rows\<close>

lemma concat_map_upt_Suc:
  "concat (map f [0 ..< Suc n]) = f 0 @ concat (map (\<lambda>j. f (Suc j)) [0 ..< n])"
proof -
  have "[0 ..< Suc n] = 0 # map Suc [0 ..< n]"
    by (simp add: upt_conv_Cons map_Suc_upt del: upt_Suc)
  then show ?thesis by (simp add: comp_def del: upt_Suc)
qed

lemma xl_break_cmds: "cmds (xl_doc (xl_break st)) = cmds (xl_doc st)"
  by (simp add: xl_break_def pdf_new_page_def)

lemma xl_render_cells_cmds:
  "i \<le> length ws \<Longrightarrow> x = xl_margin + real (sum_list (take i ws)) \<Longrightarrow>
   cmds (xl_render_cells page y ws i x row d)
     = cmds d @ map (Pair page)
         (concat (map (\<lambda>j. if row ! j = [] then [] else [xl_box ws y (i + j) (row ! j)])
                    [0 ..< min (length row) (length ws - i)]))"
proof (induction row arbitrary: i x d)
  case Nil
  show ?case by simp
next
  case (Cons c rest)
  show ?case
  proof (cases "length ws \<le> i")
    case True
    then show ?thesis by simp
  next
    case False
    then have lt: "i < length ws" by simp
    have x': "x + real (ws ! i) = xl_margin + real (sum_list (take (Suc i) ws))"
      using Cons.prems(2) lt by (simp add: take_Suc_conv_app_nth)
    have "length ws - i = Suc (length ws - Suc i)" using lt by arith
    then have m: "min (length (c # rest)) (length ws - i)
        = Suc (min (length rest) (length ws - Suc i))"
      by simp
    let ?d = "(if c \<noteq> []
              then draw page (TextBox (x + 2, y + 2, x + real (ws ! i) - 2, y + xl_row_height - 1)
                     c xl_fontsize) d
              else d)"
    have first: "cmds ?d = cmds d @ map (Pair page) (if c = [] then [] else [xl_box ws y i c])"
      using Cons.prems(2) x' by (simp add: draw_def xl_box_def)
    have "cmds (xl_render_cells page y ws i x (c # rest) d)
        = cmds (xl_render_cells page y ws (Suc i) (x + real (ws ! i)) rest ?d)"
      using lt by simp
    also have "\<dots> = cmds ?d @ map (Pair page)
         (concat (map (\<lambda>j. if rest ! j = [] then [] else [xl_box ws y (Suc i + j) (rest ! j)])
                    [0 ..< min (length rest) (length ws - Suc i)]))"
      using lt x' by (intro Cons.IH) simp_all
    finally show ?thesis
      unfolding m concat_map_upt_Suc first by (simp cong: if_cong)
  qed
qed

lemma xl_render_row_cmds:
  "cmds (xl_doc (xl_render_row ws row st))
     = cmds (xl_doc st)
       @ map (Pair (xl_page (xl_break st))) (xl_row_boxes ws (xl_y (xl_break st)) row)"
  using xl_render_cells_cmds[of 0 ws xl_margin "xl_page (xl_break st)" "xl_y (xl_break st)" row
      "xl_doc (xl_break st)"]
  by (simp add: xl_render_row_def Let_def xl_row_boxes_def xl_break_cmds cong: if_cong)

lemma render_cells_cmds:
  "render_cells cw iy x row st = Inr st' \<Longrightarrow> current_page st = Some p \<Longrightarrow>
   x = margin + real i * cw \<Longrightarrow>
   current_page st' = Some p \<and> y_position st' = y_position st
   \<and> npages (w_doc st') = npages (w_doc st)
   \<and> cmds (w_doc st')
     = cmds (w_doc st) @ map (Pair p)
         (concat (map (\<lambda>j. if py_strip (row ! j) = [] then []
                            else [word_box cw iy (i + j) (py_strip (row ! j))])
                    [0 ..< length row]))"
proof (induction row arbitrary: i x st)
  case Nil
  then show ?case by simp
next
  case (Cons c rest)
  have x': "x + cw = margin + real (Suc i) * cw"
    using Cons.prems(3) by (simp add: algebra_simps)
  have len: "length (c # rest) = Suc (length rest)" by simp
  show ?case
  proof (cases "py_strip c = []")
    case True
    with Cons.prems have "render_cells cw iy (x + cw) rest st = Inr st'" by simp
    from Cons.IH[OF this Cons.prems(2) x'] True show ?thesis
      unfolding len concat_map_upt_Suc by (simp cong: if_cong)
  next
    case False
    let ?st1 = "st\<lparr>w_doc := draw p (TextBox (x + 2, iy + 2, x + cw - 2, iy + 1000)
                     (py_strip c) 10) (w_doc st)\<rparr>"
    from Cons.prems False have nz: "cw \<noteq> 0"
      by (auto simp: draw_current_def split: if_splits)
    with Cons.prems False have rec: "render_cells cw iy (x + cw) rest ?st1 = Inr st'"
      by (simp add: draw_current_def)
    have p1: "current_page ?st1 = Some p" using Cons.prems(2) by simp
    have c1: "cmds (w_doc ?st1) = cmds (w_doc st) @ [(p, word_box cw iy i (py_strip c))]"
      using Cons.prems(3) x' by (simp add: draw_def word_box_def)
    have n1: "npages (w_doc ?st1) = npages (w_doc st)" by (simp add: draw_def)
    from Cons.IH[OF rec p1 x'] False c1 n1 show ?thesis
      unfolding len concat_map_upt_Suc by (simp cong: if_cong)
  qed
qed

lemma render_row_cmds:
  assumes "render_row cw row st = Inr st'"
  shows "\<exists>p. current_page (ensure_space tbl_row_height st) = Some p
     \<and> current_page st' = Some p
     \<and> cmds (w_doc st') = cmds (w_doc st) @ map (Pair p)
         (word_row_boxes cw (y_position (ensure_space tbl_row_height st)) row)
     \<and> y_position st' = y_position (ensure_space tbl_row_height st) + tbl_row_height"
proof -
  let ?st1 = "ensure_space tbl_row_height st"
  obtain p where p: "current_page ?st1 = Some p" using ensure_space_has_page by blast
  from assms obtain st2 where st2: "render_cells cw (y_position ?st1) margin row ?st1 = Inr st2"
    and st': "st' = st2\<lparr>y_position := y_position st2 + tbl_row_height\<rparr>"
    by (auto simp: render_row_def Let_def split: sum.splits)
  from render_cells_cmds[OF st2 p, of 0] st' p show ?thesis
    by (simp add: word_row_boxes_def ensure_space_cmds cong: if_cong)
qed

text \<open>
  C7. Rendering one row appends only the text boxes of that row, all of them with one
  page index: in the spreadsheet the page current after the page-break test of the row,
  in the word-processor table the page current after \<open>ensure_space\<close>. Cell \<open>i\<close> sits at
  the margin plus the widths of the columns before it, the cursor moves down by the fixed
  row height, and no page is started between the cells of a row. Every table is rendered
  row by row with these two functions.
\<close>

theorem row_atomicity:
  "cmds (xl_doc (xl_render_row ws row st))
     = cmds (xl_doc st) @ map (Pair (xl_page (xl_render_row ws row st)))
                           (xl_row_boxes ws (xl_y (xl_break st)) row)
   \<and> (\<forall>pc \<in> set (drop (length (cmds (xl_doc st))) (cmds (xl_doc (xl_render_row ws row st)))).
         fst pc = xl_page (xl_render_row ws row st))
   \<and> xl_y (xl_render_row ws row st) = xl_y (xl_break st) + xl_row_height
   \<and> (render_row col_width wrow wst = Inr wst' \<longrightarrow>
        (\<exists>p. current_page wst' = Some p
           \<and> cmds (w_doc wst') = cmds (w_doc wst) @ map (Pair p)
               (word_row_boxes col_width (y_position (ensure_space tbl_row_height wst)) wrow)
           \<and> (\<forall>pc \<in> set (drop (length (cmds (w_doc wst))) (cmds (w_doc wst'))). fst pc = p)
           \<and> y_position wst'
               = y_position (ensure_space tbl_row_height wst) + tbl_row_height))"
proof -
  have page: "xl_page (xl_render_row ws row st) = xl_page (xl_break st)"
    and y: "xl_y (xl_render_row ws row st) = xl_y (xl_break st) + xl_row_height"
    by (simp_all add: xl_render_row_def Let_def)
  have xl: "cmds (xl_doc (xl_render_row ws row st))
     = cmds (xl_doc st) @ map (Pair (xl_page (xl_render_row ws row st)))
                           (xl_row_boxes ws (xl_y (xl_break st)) row)"
    using xl_render_row_cmds[of ws row st] page by simp
  have xl_same: "\<forall>pc \<in> set (drop (length (cmds (xl_doc st)))
        (cmds (xl_doc (xl_render_row ws row st)))). fst pc = xl_page (xl_render_row ws row st)"
    by (subst xl) auto
  have word: "render_row col_width wrow wst = Inr wst' \<longrightarrow>
        (\<exists>p. current_page wst' = Some p
           \<and> cmds (w_doc wst') = cmds (w_doc wst) @ map (Pair p)
               (word_row_boxes col_width (y_position (ensure_space tbl_row_height wst)) wrow)
           \<and> (\<forall>pc \<in> set (drop (length (cmds (w_doc wst))) (cmds (w_doc wst'))). fst pc = p)
           \<and> y_position wst'
               = y_position (ensure_space tbl_row_height wst) + tbl_row_height)"
  proof
    assume "render_row col_width wrow wst = Inr wst'"
    from render_row_cmds[OF this] obtain p where p: "current_page wst' = Some p"
      "cmds (w_doc wst') = cmds (w_doc wst) @ map (Pair p)
         (word_row_boxes col_width (y_position (ensure_space tbl_row_height wst)) wrow)"
      "y_position wst' = y_position (ensure_space tbl_row_height wst) + tbl_row_height"
      by blast
    have "\<forall>pc \<in> set (drop (length (cmds (w_doc wst))) (cmds (w_doc wst'))). fst pc = p"
      by (subst p(2)) auto
    with p show "\<exists>p. current_page wst' = Some p
           \<and> cmds (w_doc wst') = cmds (w_doc wst) @ map (Pair p)
               (word_row_boxes col_width (y_position (ensure_space tbl_row_height wst)) wrow)
           \<and> (\<forall>pc \<in> set (drop (length (cmds (w_doc wst))) (cmds (w_doc wst'))). fst pc = p)
           \<and> y_position wst'
               = y_position (ensure_space tbl_row_height wst) + tbl_row_height"
      by blast
  qed
  from xl xl_same y word show ?thesis by blast
qed

text \<open>
  C7 on a spreadsheet row at the foot of a page (it moves to the next page as a whole; its
  third cell has no column) and on a two-column table row at the top of a page.
\<close>

theorem row_atomicity_witness:
  "xl_render_row [40, 60] [str_of ''a'', [], str_of ''b'']
       \<lparr>xl_doc = \<lparr>npages = 1, cmds = []\<rparr>, xl_page = 0, xl_y = 550\<rparr>
     = \<lparr>xl_doc = \<lparr>npages = 2, cmds = [(1, TextBox (42, 42, 78, 56) (str_of ''a'') 9)]\<rparr>,
        xl_page = 1, xl_y = 57\<rparr>
   \<and> render_row (tbl_col_width 2) [str_of ''a'', str_of '' b ''] word_start = Inr two_cells_drawn
   \<and> current_page two_cells_drawn = Some 0
   \<and> map fst (drop (length (cmds (w_doc word_start))) (cmds (w_doc two_cells_drawn))) = [0, 0]
   \<and> y_position two_cells_drawn = 94"
proof -
  have xl: "xl_render_row [40, 60] [str_of ''a'', [], str_of ''b'']
       \<lparr>xl_doc = \<lparr>npages = 1, cmds = []\<rparr>, xl_page = 0, xl_y = 550\<rparr>
     = \<lparr>xl_doc = \<lparr>npages = 2, cmds = [(1, TextBox (42, 42, 78, 56) (str_of ''a'') 9)]\<rparr>,
        xl_page = 1, xl_y = 57\<rparr>"
    by (simp add: xl_render_row_def xl_break_def xl_margin_def xl_row_height_def xl_fontsize_def
        cell_padding_def xl_max_y_def xl_page_height_def pdf_new_page_def draw_def Let_def
        str_of_def)
  have row: "render_row (tbl_col_width 2) [str_of ''a'', str_of '' b ''] word_start
      = Inr two_cells_drawn"
    by (simp add: two_cells_drawn_def render_row_def tbl_row_height_def tbl_col_width_def
        text_width_def page_width_def page_height_def margin_def word_start_def new_page_def
        pdf_open_def pdf_new_page_def ensure_space_def draw_current_def draw_def Let_def
        py_strip_def is_space_def str_of_def)
  have start: "cmds (w_doc word_start) = []"
    by (simp add: word_start_def new_page_def pdf_open_def pdf_new_page_def)
  from row_atomicity [of "[40, 60]" "[str_of ''a'', [], str_of ''b'']"
      "\<lparr>xl_doc = \<lparr>npages = 1, cmds = []\<rparr>, xl_page = 0, xl_y = 550\<rparr>"
      "tbl_col_width 2" "[str_of ''a'', str_of '' b '']" word_start two_cells_drawn] row
  obtain p where p: "current_page two_cells_drawn = Some p"
    "\<forall>pc \<in> set (drop (length (cmds (w_doc word_start))) (cmds (w_doc two_cells_drawn))).
       fst pc = p"
    by blast
  from p(1) have p0: "p = 0" by (simp add: two_cells_drawn_def)
  have "length (cmds (w_doc two_cells_drawn)) = 2" by (simp add: two_cells_drawn_def)
  with p(2) start p0
  have pages: "map fst (drop (length (cmds (w_doc word_start))) (cmds (w_doc two_cells_drawn)))
      = [0, 0]"
    by (simp add: two_cells_drawn_def)
  have y: "y_position two_cells_drawn = 94" by (simp add: two_cells_drawn_def)
  from xl row p(1) p0 pages y show ?thesis by simp
qed

subsection \<open>Documents only grow\<close>










subsection \<open>Sheets\<close>










subsection \<open>Slides\<close>












subsection \<open>Error isolation\<close>




end
